theory Spec2Isabelle
  imports Complex_Main "HOL-Library.Log_Nat"
begin

section \<open>Text primitives of the host language\<close>

text \<open>
  The analysed text is a Python \<open>str\<close>. It is modelled as a \<open>string\<close>, one \<open>char\<close> per
  code point, so the model covers the code points U+0000 to U+00FF. The character
  classes below are the ones Python applies to this range.
\<close>

definition newline :: char where
  "newline = CHR 0x0A"

definition is_space :: "char \<Rightarrow> bool" where
  \<comment> \<open>\<open>str.isspace\<close>, used by \<open>strip\<close>, \<open>lstrip\<close> and the class \<open>\s\<close>\<close>
  "is_space c = (let n = of_char c :: nat in
     (9 \<le> n \<and> n \<le> 13) \<or> (28 \<le> n \<and> n \<le> 32) \<or> n = 133 \<or> n = 160)"

definition is_digit :: "char \<Rightarrow> bool" where
  \<comment> \<open>the class \<open>\d\<close>: decimal digits\<close>
  "is_digit c = (let n = of_char c :: nat in 48 \<le> n \<and> n \<le> 57)"

definition is_word :: "char \<Rightarrow> bool" where
  \<comment> \<open>the class \<open>\w\<close>: alphanumeric code points and the underscore\<close>
  "is_word c = (let n = of_char c :: nat in
     (48 \<le> n \<and> n \<le> 57) \<or> (65 \<le> n \<and> n \<le> 90) \<or> n = 95 \<or> (97 \<le> n \<and> n \<le> 122) \<or>
     n = 170 \<or> n = 178 \<or> n = 179 \<or> n = 181 \<or> n = 185 \<or> n = 186 \<or>
     (188 \<le> n \<and> n \<le> 190) \<or> (192 \<le> n \<and> n \<le> 214) \<or> (216 \<le> n \<and> n \<le> 246) \<or>
     (248 \<le> n \<and> n \<le> 255))"

definition lower_char :: "char \<Rightarrow> char" where
  \<comment> \<open>\<open>str.lower\<close> on one code point\<close>
  "lower_char c = (let n = of_char c :: nat in
     if (65 \<le> n \<and> n \<le> 90) \<or> (192 \<le> n \<and> n \<le> 214) \<or> (216 \<le> n \<and> n \<le> 222)
     then char_of (n + 32) else c)"

definition lower :: "string \<Rightarrow> string" where
  "lower s = map lower_char s"

definition lstrip :: "string \<Rightarrow> string" where
  "lstrip s = dropWhile is_space s"

definition strip :: "string \<Rightarrow> string" where
  "strip s = rev (dropWhile is_space (rev (dropWhile is_space s)))"

fun startswith :: "string \<Rightarrow> string \<Rightarrow> bool" where
  \<comment> \<open>\<open>s.startswith(p)\<close>\<close>
  "startswith s [] = True"
| "startswith [] (p # ps) = False"
| "startswith (c # cs) (p # ps) = (c = p \<and> startswith cs ps)"

fun contains :: "string \<Rightarrow> string \<Rightarrow> bool" where
  \<comment> \<open>\<open>p in s\<close>\<close>
  "contains [] p = (p = [])"
| "contains (c # cs) p = (startswith (c # cs) p \<or> contains cs p)"

fun split_nl :: "string \<Rightarrow> string list" where
  \<comment> \<open>\<open>s.split('\n')\<close>: one more piece than there are line feeds\<close>
  "split_nl [] = [[]]"
| "split_nl (c # cs) =
     (if c = newline then [] # split_nl cs
      else (case split_nl cs of l # ls \<Rightarrow> (c # l) # ls | [] \<Rightarrow> [[c]]))"

definition count_nl :: "string \<Rightarrow> nat" where
  \<comment> \<open>\<open>s.count('\n')\<close>\<close>
  "count_nl s = length (filter (\<lambda>c. c = newline) s)"

definition slice :: "string \<Rightarrow> nat \<Rightarrow> nat \<Rightarrow> string" where
  \<comment> \<open>\<open>s[i:j]\<close> for non-negative indices\<close>
  "slice s i j = take (j - i) (drop i s)"

section \<open>The regular expression engine\<close>

text \<open>
  Patterns are matched by the backtracking engine of Python's \<open>re\<close> module. The model
  covers the constructs the rule tables use. \<open>rmatch\<close> lists, in the order in which the
  engine tries them, the positions where a match starting at position \<open>i\<close> can end; the
  engine reports the first one. A repetition goes on only after an iteration that
  consumed text; no pattern of the tables repeats a group that can match the empty text.
  No pattern has an anchor, so the flag \<open>multiline\<close> changes no match; groups only
  matter for what \<open>findall\<close> returns, not for how many matches it returns.
\<close>

record flags =
  ignorecase :: bool
  multiline :: bool
  dotall :: bool

definition no_flags :: flags where
  "no_flags = \<lparr>ignorecase = False, multiline = False, dotall = False\<rparr>"

datatype rx =
    Lit string          \<comment> \<open>a run of literal characters\<close>
  | Dot                 \<comment> \<open>\<open>.\<close>\<close>
  | Space               \<comment> \<open>\<open>\s\<close>\<close>
  | Word                \<comment> \<open>\<open>\w\<close>\<close>
  | Digit               \<comment> \<open>\<open>\d\<close>\<close>
  | OneOf string        \<comment> \<open>\<open>[...]\<close>\<close>
  | NoneOf string       \<comment> \<open>\<open>[^...]\<close>\<close>
  | Boundary            \<comment> \<open>\<open>\b\<close>\<close>
  | Seq rx rx
  | Alt rx rx
  | Star rx             \<comment> \<open>\<open>r*\<close>, greedy\<close>
  | LazyStar rx         \<comment> \<open>\<open>r*?\<close>\<close>

definition char_eq :: "flags \<Rightarrow> char \<Rightarrow> char \<Rightarrow> bool" where
  "char_eq fl a b = (if ignorecase fl then lower_char a = lower_char b else a = b)"

fun lit_at :: "flags \<Rightarrow> string \<Rightarrow> string \<Rightarrow> bool" where
  \<comment> \<open>the literal \<open>w\<close> is a prefix of the text \<open>t\<close>\<close>
  "lit_at fl [] t = True"
| "lit_at fl (a # w) [] = False"
| "lit_at fl (a # w) (b # t) = (char_eq fl a b \<and> lit_at fl w t)"

definition one_char :: "(char \<Rightarrow> bool) \<Rightarrow> string \<Rightarrow> nat \<Rightarrow> nat list" where
  "one_char P s i = (if i < length s \<and> P (s ! i) then [Suc i] else [])"

definition at_boundary :: "string \<Rightarrow> nat \<Rightarrow> bool" where
  "at_boundary s i =
     ((0 < i \<and> i \<le> length s \<and> is_word (s ! (i - 1))) \<noteq> (i < length s \<and> is_word (s ! i)))"

function rmatch :: "flags \<Rightarrow> string \<Rightarrow> rx \<Rightarrow> nat \<Rightarrow> nat list" where
  "rmatch fl s (Lit w) i = (if lit_at fl w (drop i s) then [i + length w] else [])"
| "rmatch fl s Dot i = one_char (\<lambda>c. if dotall fl then True else c \<noteq> newline) s i"
| "rmatch fl s Space i = one_char is_space s i"
| "rmatch fl s Word i = one_char is_word s i"
| "rmatch fl s Digit i = one_char is_digit s i"
| "rmatch fl s (OneOf cs) i = one_char (\<lambda>c. c \<in> set cs) s i"
| "rmatch fl s (NoneOf cs) i = one_char (\<lambda>c. c \<notin> set cs) s i"
| "rmatch fl s Boundary i = (if at_boundary s i then [i] else [])"
| "rmatch fl s (Seq a b) i = concat (map (rmatch fl s b) (rmatch fl s a i))"
| "rmatch fl s (Alt a b) i = rmatch fl s a i @ rmatch fl s b i"
| "rmatch fl s (Star a) i =
     concat (map (\<lambda>j. if i < j \<and> j \<le> length s then rmatch fl s (Star a) j else [])
                 (rmatch fl s a i)) @ [i]"
| "rmatch fl s (LazyStar a) i =
     i # concat (map (\<lambda>j. if i < j \<and> j \<le> length s then rmatch fl s (LazyStar a) j else [])
                     (rmatch fl s a i))"
  by pat_completeness auto
termination
  by (relation "measures [\<lambda>(fl, s, r, i). size r, \<lambda>(fl, s, r, i). length s - i]") auto

declare rmatch.simps(11,12) [simp del]

lemma one_char_bounds: "j \<in> set (one_char P s i) \<Longrightarrow> i < j \<and> j \<le> length s"
  by (auto simp: one_char_def split: if_splits)

lemma lit_at_length: "lit_at fl w t \<Longrightarrow> length w \<le> length t"
  by (induction fl w t rule: lit_at.induct) auto

lemma rmatch_bounds:
  "j \<in> set (rmatch fl s r i) \<Longrightarrow> i \<le> length s \<Longrightarrow> i \<le> j \<and> j \<le> length s"
proof (induction fl s r i arbitrary: j rule: rmatch.induct)
  case (1 fl s w i)
  from "1.prems"(1) have "lit_at fl w (drop i s)" and "j = i + length w"
    by (simp_all split: if_splits)
  with lit_at_length[of fl w "drop i s"] "1.prems"(2) show ?case by simp
next
  case (2 fl s i)
  from one_char_bounds[OF "2.prems"(1)[simplified]] show ?case by simp
next
  case (3 fl s i)
  from one_char_bounds[OF "3.prems"(1)[simplified]] show ?case by simp
next
  case (4 fl s i)
  from one_char_bounds[OF "4.prems"(1)[simplified]] show ?case by simp
next
  case (5 fl s i)
  from one_char_bounds[OF "5.prems"(1)[simplified]] show ?case by simp
next
  case (6 fl s cs i)
  from one_char_bounds[OF "6.prems"(1)[simplified]] show ?case by simp
next
  case (7 fl s cs i)
  from one_char_bounds[OF "7.prems"(1)[simplified]] show ?case by simp
next
  case (8 fl s i)
  then show ?case by (simp split: if_splits)
next
  case (9 fl s a b i)
  from "9.prems"(1) obtain k where k: "k \<in> set (rmatch fl s a i)"
    and j: "j \<in> set (rmatch fl s b k)"
    by auto
  from "9.IH"(1)[OF k "9.prems"(2)] have ik: "i \<le> k" "k \<le> length s" by simp_all
  from "9.IH"(2)[OF k j ik(2)] ik show ?case by simp
next
  case (10 fl s a b i)
  from "10.prems"(1) have "j \<in> set (rmatch fl s a i) \<or> j \<in> set (rmatch fl s b i)"
    by simp
  with "10.IH" "10.prems"(2) show ?case by blast
next
  case (11 fl s a i)
  from "11.prems"(1)[unfolded rmatch.simps(11)[of fl s a i]] consider "j = i"
    | k where "k \<in> set (rmatch fl s a i)" "i < k" "k \<le> length s"
        "j \<in> set (rmatch fl s (Star a) k)"
    by (auto split: if_splits)
  then show ?case
  proof cases
    case 1
    with "11.prems"(2) show ?thesis by simp
  next
    case (2 k)
    from "11.IH"(2)[OF 2(1) conjI[OF 2(2,3)] 2(4) 2(3)] 2(2) show ?thesis by simp
  qed
next
  case (12 fl s a i)
  from "12.prems"(1)[unfolded rmatch.simps(12)[of fl s a i]] consider "j = i"
    | k where "k \<in> set (rmatch fl s a i)" "i < k" "k \<le> length s"
        "j \<in> set (rmatch fl s (LazyStar a) k)"
    by (auto split: if_splits)
  then show ?case
  proof cases
    case 1
    with "12.prems"(2) show ?thesis by simp
  next
    case (2 k)
    from "12.IH"(2)[OF 2(1) conjI[OF 2(2,3)] 2(4) 2(3)] 2(2) show ?thesis by simp
  qed
qed

text \<open>
  \<open>finditer_from\<close> is the scanner behind \<open>re.finditer\<close> and \<open>re.findall\<close>: it searches
  from position \<open>p\<close> for the leftmost match, reports its span, and goes on from the end of
  the match. After an empty match the next match may not be empty at the same place
  (\<open>must\<close>).
\<close>

function finditer_from :: "flags \<Rightarrow> rx \<Rightarrow> string \<Rightarrow> nat \<Rightarrow> bool \<Rightarrow> (nat \<times> nat) list" where
  "finditer_from fl r s p must =
     (if length s < p then []
      else (case find (\<lambda>e. if must then e \<noteq> p else True) (rmatch fl s r p) of
              None \<Rightarrow> finditer_from fl r s (Suc p) False
            | Some e \<Rightarrow> (p, e) # finditer_from fl r s e (e = p)))"
  by pat_completeness auto
termination
proof (relation "measures [\<lambda>(fl, r, s, p, must). Suc (length s) - p,
                           \<lambda>(fl, r, s, p, must). if must then 0 else 1]", goal_cases)
  case 1
  then show ?case by simp
next
  case (2 fl r s p must)
  then show ?case by auto
next
  case (3 fl r s p must e)
  then have "e \<in> set (rmatch fl s r p)" and ne: "if must then e \<noteq> p else True"
    by (auto simp: find_Some_iff)
  with rmatch_bounds[of e fl s r p] 3 have "p \<le> e" "e \<le> length s" by auto
  with ne 3 show ?case by (auto split: if_splits)
qed

declare finditer_from.simps [simp del]

definition finditer :: "rx \<Rightarrow> flags \<Rightarrow> string \<Rightarrow> (nat \<times> nat) list" where
  \<comment> \<open>\<open>re.finditer(pattern, content, flags)\<close>: the spans of the matches\<close>
  "finditer r fl s = finditer_from fl r s 0 False"

definition findall_count :: "rx \<Rightarrow> flags \<Rightarrow> string \<Rightarrow> int" where
  \<comment> \<open>\<open>len(re.findall(pattern, content, flags))\<close>\<close>
  "findall_count r fl s = int (length (finditer r fl s))"

definition line_number :: "string \<Rightarrow> nat \<Rightarrow> int" where
  \<comment> \<open>\<open>content[:match.start()].count('\n') + 1\<close>\<close>
  "line_number s p = int (count_nl (take p s)) + 1"

definition plus :: "rx \<Rightarrow> rx" where
  \<comment> \<open>\<open>r+\<close>\<close>
  "plus r = Seq r (Star r)"

fun at_least :: "nat \<Rightarrow> rx \<Rightarrow> rx" where
  \<comment> \<open>\<open>r{n,}\<close>\<close>
  "at_least 0 r = Star r"
| "at_least (Suc n) r = Seq r (at_least n r)"

fun seqs :: "rx list \<Rightarrow> rx" where
  \<comment> \<open>concatenation of the items of a pattern\<close>
  "seqs [] = Lit []"
| "seqs [r] = r"
| "seqs (r # rs) = Seq r (seqs rs)"

section \<open>The rule tables\<close>

definition dq :: char where
  "dq = CHR 0x22"

definition sq :: char where
  "sq = CHR 0x27"

definition nl :: rx where
  \<comment> \<open>\<open>\n\<close> inside a pattern\<close>
  "nl = Lit [newline]"

record pattern_rule =
  rule_name :: string
  rule_pattern :: rx
  rule_severity :: string
  rule_description :: string

definition vulnerability_patterns :: "pattern_rule list" where
  \<comment> \<open>\<open>_load_vulnerability_patterns\<close>\<close>
  "vulnerability_patterns =
    [\<lparr>rule_name = ''SQL Injection'',
      rule_pattern = seqs [Alt (Lit ''execute'') (Lit ''query''), Star Space, Lit ''('',
                           Star Space, OneOf [dq, sq], Star Dot, Lit ''+'', Star Dot,
                           OneOf [dq, sq]],
      rule_severity = ''HIGH'',
      rule_description = ''Potential SQL injection vulnerability''\<rparr>,
     \<lparr>rule_name = ''XSS Vulnerability'',
      rule_pattern = seqs [Lit ''innerHTML'', Star Space, Lit ''='', Star Space, Star Dot,
                           Lit ''+''],
      rule_severity = ''MEDIUM'',
      rule_description = ''Potential XSS vulnerability through innerHTML''\<rparr>,
     \<lparr>rule_name = ''Hardcoded Credentials'',
      rule_pattern = seqs [Alt (Lit ''password'') (Alt (Lit ''api_key'') (Lit ''secret'')),
                           Star Space, Lit ''='', Star Space, OneOf [dq, sq],
                           plus (NoneOf [dq, sq]), OneOf [dq, sq]],
      rule_severity = ''HIGH'',
      rule_description = ''Hardcoded credentials found''\<rparr>,
     \<lparr>rule_name = ''Insecure Random'',
      rule_pattern = Lit ''Math.random()'',
      rule_severity = ''LOW'',
      rule_description = ''Using insecure random number generation''\<rparr>]"

definition performance_patterns :: "pattern_rule list" where
  \<comment> \<open>\<open>_load_performance_patterns\<close>\<close>
  "performance_patterns =
    [\<lparr>rule_name = ''N+1 Query'',
      rule_pattern = seqs [Lit ''for'', plus Space, Star Dot, Lit ''in'', Star Dot, Lit '':'',
                           Star Space, nl, Star Space, Star Dot, Lit ''.query(''],
      rule_severity = ''MEDIUM'',
      rule_description = ''Potential N+1 query problem''\<rparr>,
     \<lparr>rule_name = ''Nested Loops'',
      rule_pattern = seqs [Lit ''for'', plus Space, Star Dot, Lit ''in'', Star Dot, Lit '':'',
                           Star Space, nl, Star Space, Lit ''for'', plus Space, Star Dot,
                           Lit ''in'', Star Dot, Lit '':''],
      rule_severity = ''LOW'',
      rule_description = ''Nested loops may cause performance issues''\<rparr>,
     \<lparr>rule_name = ''Synchronous IO'',
      rule_pattern = Seq (Alt (Lit ''requests.get'') (Lit ''urllib.urlopen'')) (Lit ''(''),
      rule_severity = ''MEDIUM'',
      rule_description = ''Synchronous IO operation''\<rparr>]"

record code_pattern_def =
  def_name :: string
  def_pattern :: rx
  def_type :: string

definition block_lines :: rx where
  \<comment> \<open>the group \<open>(?:\n(?:.*\n)*?)\<close> of the long-block patterns\<close>
  "block_lines = Seq nl (LazyStar (Seq (Star Dot) nl))"

definition def_header :: rx where
  \<comment> \<open>\<open>def\s+\w+\s*\([^)]*\):\s*\<close>\<close>
  "def_header = seqs [Lit ''def'', plus Space, plus Word, Star Space, Lit ''('',
                      Star (NoneOf '')''), Lit ''):'', Star Space]"

definition design_patterns :: "code_pattern_def list" where
  "design_patterns =
    [\<lparr>def_name = ''Singleton Pattern'',
      def_pattern = seqs [Lit ''class'', plus Space, plus Word, Star Dot, Lit '':'', Star Space,
                          nl, Star Dot, Lit ''_instance'', Star Space, Lit ''='', Star Space,
                          Lit ''None''],
      def_type = ''design_pattern''\<rparr>,
     \<lparr>def_name = ''Factory Pattern'',
      def_pattern = seqs [Lit ''def'', plus Space, Lit ''create_'', plus Word, Star Space,
                          Lit ''(''],
      def_type = ''design_pattern''\<rparr>,
     \<lparr>def_name = ''Observer Pattern'',
      def_pattern = Alt (Lit ''notify'') (Alt (Lit ''observer'') (Lit ''subscribe'')),
      def_type = ''design_pattern''\<rparr>,
     \<lparr>def_name = ''Strategy Pattern'',
      def_pattern = seqs [Lit ''def'', plus Space, Lit ''execute'', Star Space, Lit ''(''],
      def_type = ''design_pattern''\<rparr>]"

definition anti_patterns :: "code_pattern_def list" where
  "anti_patterns =
    [\<lparr>def_name = ''God Class'',
      def_pattern = seqs [Lit ''class'', plus Space, plus Word, Star Dot, Lit '':'', Star Space,
                          at_least 100 block_lines],
      def_type = ''anti_pattern''\<rparr>,
     \<lparr>def_name = ''Long Method'',
      def_pattern = Seq def_header (at_least 30 block_lines),
      def_type = ''anti_pattern''\<rparr>,
     \<lparr>def_name = ''Magic Numbers'',
      def_pattern = seqs [Boundary, at_least 2 Digit, Boundary],
      def_type = ''anti_pattern''\<rparr>]"

section \<open>Binary floating point\<close>

text \<open>
  A Python \<open>float\<close> is a binary64 number. It is modelled by its exact value, a rational
  number, and every operation on floats is the exact operation followed by \<open>double\<close>,
  the rounding to the nearest binary64 number with a tie going to the even significand.
  The numbers of this program stay far below the largest binary64 number, so there is no
  overflow in the model.
\<close>

definition round_half_even :: "rat \<Rightarrow> int" where
  \<comment> \<open>the nearest integer, a tie going to the even one\<close>
  "round_half_even y =
     (let f = \<lfloor>y\<rfloor>; d = y - of_int f in
      if d < 1 / 2 then f else if 1 / 2 < d then f + 1
      else if even f then f else f + 1)"

definition pow2 :: "int \<Rightarrow> rat" where
  "pow2 k = (if 0 \<le> k then 2 ^ nat k else 1 / 2 ^ nat (- k))"

definition floor_log2 :: "rat \<Rightarrow> int" where
  \<comment> \<open>for \<open>x > 0\<close>, the exponent \<open>e\<close> with \<open>2^e \<le> x < 2^(e+1)\<close>\<close>
  "floor_log2 x = (if 1 \<le> x then bitlen \<lfloor>x\<rfloor> - 1 else - bitlen (\<lceil>1 / x\<rceil> - 1))"

definition double :: "rat \<Rightarrow> rat" where
  \<comment> \<open>the binary64 number nearest to \<open>x\<close>: 53 significant bits, and steps of
      \<open>2^-1074\<close> below \<open>2^-1022\<close>\<close>
  "double x =
     (if x = 0 then 0
      else (let u = max (floor_log2 \<bar>x\<bar> - 52) (- 1074) in
            of_int (round_half_even (x / pow2 u)) * pow2 u))"

definition py_round1 :: "rat \<Rightarrow> rat" where
  \<comment> \<open>\<open>round(x, 1)\<close> of a float: the decimal with one digit after the point nearest to the
      exact value of \<open>x\<close>, a tie going to the even digit, read back as a float\<close>
  "py_round1 x = double (of_int (round_half_even (x * 10)) / 10)"

section \<open>Metrics of one file\<close>

text \<open>
  A call that can raise an exception returns \<open>Inl\<close> of the exception; \<open>Exception msg\<close>
  stands for any instance of Python's \<open>Exception\<close>, with \<open>msg\<close> its \<open>str\<close>.
\<close>

datatype exn = Exception string

record cc_result =
  \<comment> \<open>one block reported by the external complexity analyser\<close>
  cc_name :: string
  cc_complexity :: int
  cc_lineno :: int

record radon =
  \<comment> \<open>the optional complexity analyser: \<open>cc_visit\<close> and \<open>mi_visit\<close>\<close>
  cc_visit :: "string \<Rightarrow> exn + cc_result list"
  mi_visit :: "string \<Rightarrow> exn + rat"

record code_metrics =
  total_lines :: int
  code_lines :: int
  comment_lines :: int
  blank_lines :: int
  functions_count :: int
  classes_count :: int
  imports_count :: int
  average_complexity :: "rat option"
  max_complexity :: "int option"
  maintainability_index :: "rat option"

definition def_rx :: rx where
  \<comment> \<open>\<open>def\s+\w+\s*\(\<close>\<close>
  "def_rx = seqs [Lit ''def'', plus Space, plus Word, Star Space, Lit ''('']"

definition class_rx :: rx where
  \<comment> \<open>\<open>class\s+\w+\<close>\<close>
  "class_rx = seqs [Lit ''class'', plus Space, plus Word]"

definition import_rx :: rx where
  \<comment> \<open>\<open>(import\s+|from\s+.*\s+import)\<close>\<close>
  "import_rx = Alt (Seq (Lit ''import'') (plus Space))
                   (seqs [Lit ''from'', plus Space, Star Dot, plus Space, Lit ''import''])"

definition is_code_line :: "string \<Rightarrow> bool" where
  "is_code_line line = (strip line \<noteq> [] \<and> \<not> startswith (strip line) ''#'')"

definition is_comment_line :: "string \<Rightarrow> bool" where
  "is_comment_line line = startswith (strip line) ''#''"

definition is_blank_line :: "string \<Rightarrow> bool" where
  "is_blank_line line = (strip line = [])"

definition base_metrics :: "string \<Rightarrow> code_metrics" where
  \<comment> \<open>the dictionary \<open>_calculate_code_metrics\<close> builds before it asks the analyser\<close>
  "base_metrics content =
     (let lines = split_nl content in
      \<lparr>total_lines = int (length lines),
       code_lines = int (length (filter is_code_line lines)),
       comment_lines = int (length (filter is_comment_line lines)),
       blank_lines = int (length (filter is_blank_line lines)),
       functions_count = findall_count def_rx no_flags content,
       classes_count = findall_count class_rx no_flags content,
       imports_count = findall_count import_rx no_flags content,
       average_complexity = None,
       max_complexity = None,
       maintainability_index = None\<rparr>)"

definition py_max :: "int list \<Rightarrow> int" where
  \<comment> \<open>\<open>max\<close> of a non-empty sequence\<close>
  "py_max xs = fold max (tl xs) (hd xs)"

definition add_complexity :: "cc_result list \<Rightarrow> code_metrics \<Rightarrow> code_metrics" where
  "add_complexity results m =
     (if results = [] then m
      else m\<lparr>average_complexity :=
                 Some (double (of_int (sum_list (map cc_complexity results))
                               / of_nat (length results))),
               max_complexity := Some (py_max (map cc_complexity results))\<rparr>)"

definition calculate_code_metrics :: "radon option \<Rightarrow> string \<Rightarrow> code_metrics" where
  \<comment> \<open>\<open>_calculate_code_metrics\<close>; a failure of the analyser is logged and swallowed, and
      what was stored before the failure stays\<close>
  "calculate_code_metrics rd content =
     (let metrics = base_metrics content in
      case rd of
        None \<Rightarrow> metrics
      | Some r \<Rightarrow>
          (case cc_visit r content of
             Inl e \<Rightarrow> metrics
           | Inr results \<Rightarrow>
               (let metrics1 = add_complexity results metrics in
                case mi_visit r content of
                  Inl e \<Rightarrow> metrics1
                | Inr mi \<Rightarrow> if mi \<noteq> 0 then metrics1\<lparr>maintainability_index := Some mi\<rparr>
                            else metrics1)))"

section \<open>Pattern scanning\<close>

record code_pattern =
  cp_name :: string
  cp_type :: string
  cp_line_number :: int
  matched_text :: string

record vulnerability =
  vuln_name :: string
  vuln_severity :: string
  vuln_description :: string
  vuln_line_number :: int
  matched_code :: string

record performance_issue =
  perf_name :: string
  perf_severity :: string
  perf_description :: string
  perf_line_number :: int
  perf_suggestion :: string

definition truncate_match :: "string \<Rightarrow> string" where
  \<comment> \<open>\<open>g[:100] + '...' if len(g) > 100 else g\<close>\<close>
  "truncate_match g = (if length g > 100 then take 100 g @ ''...'' else g)"

definition detect_flags :: flags where
  \<comment> \<open>\<open>re.MULTILINE | re.DOTALL\<close>\<close>
  "detect_flags = \<lparr>ignorecase = False, multiline = True, dotall = True\<rparr>"

definition multiline_flags :: flags where
  \<comment> \<open>\<open>re.MULTILINE\<close>\<close>
  "multiline_flags = \<lparr>ignorecase = False, multiline = True, dotall = False\<rparr>"

definition ignorecase_flags :: flags where
  \<comment> \<open>\<open>re.IGNORECASE\<close>\<close>
  "ignorecase_flags = \<lparr>ignorecase = True, multiline = False, dotall = False\<rparr>"

definition code_pattern_of :: "string \<Rightarrow> code_pattern_def \<Rightarrow> nat \<times> nat \<Rightarrow> code_pattern" where
  "code_pattern_of content d m =
     \<lparr>cp_name = def_name d,
      cp_type = def_type d,
      cp_line_number = line_number content (fst m),
      matched_text = truncate_match (slice content (fst m) (snd m))\<rparr>"

definition detect_code_patterns :: "string \<Rightarrow> code_pattern list" where
  \<comment> \<open>\<open>_detect_code_patterns\<close>\<close>
  "detect_code_patterns content =
     concat (map (\<lambda>d. map (code_pattern_of content d)
                           (finditer (def_pattern d) detect_flags content))
                 (design_patterns @ anti_patterns))"

definition vulnerability_of :: "string \<Rightarrow> pattern_rule \<Rightarrow> nat \<times> nat \<Rightarrow> vulnerability" where
  "vulnerability_of content r m =
     \<lparr>vuln_name = rule_name r,
      vuln_severity = rule_severity r,
      vuln_description = rule_description r,
      vuln_line_number = line_number content (fst m),
      matched_code = slice content (fst m) (snd m)\<rparr>"

definition scan_rule :: "string \<Rightarrow> pattern_rule \<Rightarrow> vulnerability list" where
  \<comment> \<open>the inner loop of \<open>_scan_security_vulnerabilities\<close> for one rule\<close>
  "scan_rule content r =
     map (vulnerability_of content r) (finditer (rule_pattern r) multiline_flags content)"

definition scan_security_vulnerabilities :: "string \<Rightarrow> vulnerability list" where
  \<comment> \<open>\<open>_scan_security_vulnerabilities\<close>\<close>
  "scan_security_vulnerabilities content =
     concat (map (scan_rule content) vulnerability_patterns)"

definition get_performance_suggestion :: "string \<Rightarrow> string" where
  \<comment> \<open>\<open>_get_performance_suggestion\<close>\<close>
  "get_performance_suggestion pattern_name =
     (case map_of
        [(''N+1 Query'', ''Consider using batch queries or eager loading''),
         (''Nested Loops'', ''Consider using more efficient algorithms or data structures''),
         (''Synchronous IO'', ''Consider using async/await or threading for IO operations'')]
        pattern_name of
        Some t \<Rightarrow> t
      | None \<Rightarrow> ''Review for potential optimization'')"

definition performance_issue_of :: "string \<Rightarrow> pattern_rule \<Rightarrow> nat \<times> nat \<Rightarrow> performance_issue" where
  "performance_issue_of content r m =
     \<lparr>perf_name = rule_name r,
      perf_severity = rule_severity r,
      perf_description = rule_description r,
      perf_line_number = line_number content (fst m),
      perf_suggestion = get_performance_suggestion (rule_name r)\<rparr>"

definition analyze_rule :: "string \<Rightarrow> pattern_rule \<Rightarrow> performance_issue list" where
  \<comment> \<open>the inner loop of \<open>_analyze_performance_patterns\<close> for one rule\<close>
  "analyze_rule content r =
     map (performance_issue_of content r) (finditer (rule_pattern r) multiline_flags content)"

definition analyze_performance_patterns :: "string \<Rightarrow> performance_issue list" where
  \<comment> \<open>\<open>_analyze_performance_patterns\<close>\<close>
  "analyze_performance_patterns content =
     concat (map (analyze_rule content) performance_patterns)"

section \<open>Technical debt\<close>

record debt_indicators =
  todo_comments :: int
  code_duplication :: int
  long_functions :: int
  magic_numbers :: int
  deep_nesting :: int
  overall_score :: int
  assessment :: string

definition todo_rx :: rx where
  \<comment> \<open>\<open>#.*TODO|#.*FIXME|#.*HACK\<close>\<close>
  "todo_rx = Alt (seqs [Lit ''#'', Star Dot, Lit ''TODO''])
                 (Alt (seqs [Lit ''#'', Star Dot, Lit ''FIXME''])
                      (seqs [Lit ''#'', Star Dot, Lit ''HACK'']))"

definition long_function_rx :: rx where
  \<comment> \<open>\<open>def\s+\w+\s*\([^)]*\):\s*(?:\n(?:.*\n)*?){20,}\<close>\<close>
  "long_function_rx = Seq def_header (at_least 20 block_lines)"

definition magic_number_rx :: rx where
  \<comment> \<open>\<open>\b\d{3,}\b\<close>\<close>
  "magic_number_rx = seqs [Boundary, at_least 3 Digit, Boundary]"

definition detect_code_duplication :: "string \<Rightarrow> int" where
  \<comment> \<open>\<open>_detect_code_duplication\<close>\<close>
  "detect_code_duplication content =
     (let lines = map strip (filter (\<lambda>line. strip line \<noteq> []) (split_nl content));
          duplicates = length (filter (\<lambda>line. length line > 20 \<and> count_list lines line > 1)
                                      lines)
      in int duplicates div 2)"

definition indent_level :: "string \<Rightarrow> nat" where
  \<comment> \<open>\<open>(len(line) - len(line.lstrip())) // 4\<close>\<close>
  "indent_level line = (length line - length (lstrip line)) div 4"

definition count_deep_nesting :: "string \<Rightarrow> int" where
  \<comment> \<open>\<open>_count_deep_nesting\<close>\<close>
  "count_deep_nesting content =
     int (length (filter (\<lambda>line. indent_level line > 4) (split_nl content)))"

definition assess_debt_level :: "int \<Rightarrow> string" where
  \<comment> \<open>\<open>_assess_debt_level\<close>\<close>
  "assess_debt_level debt_score =
     (if debt_score < 20 then ''LOW''
      else if debt_score < 50 then ''MEDIUM''
      else if debt_score < 80 then ''HIGH''
      else ''CRITICAL'')"

definition calculate_technical_debt :: "string \<Rightarrow> debt_indicators" where
  \<comment> \<open>\<open>_calculate_technical_debt\<close>\<close>
  "calculate_technical_debt content =
     (let todo = findall_count todo_rx ignorecase_flags content;
          dup = detect_code_duplication content;
          long = findall_count long_function_rx multiline_flags content;
          magic = findall_count magic_number_rx no_flags content;
          deep = count_deep_nesting content;
          debt_score = min 100 (todo * 5 + dup * 10 + long * 8 + magic * 2 + deep * 15)
      in \<lparr>todo_comments = todo,
          code_duplication = dup,
          long_functions = long,
          magic_numbers = magic,
          deep_nesting = deep,
          overall_score = debt_score,
          assessment = assess_debt_level debt_score\<rparr>)"

section \<open>The analysis of one file\<close>

fun rfind :: "char \<Rightarrow> string \<Rightarrow> int" where
  \<comment> \<open>\<open>s.rfind(c)\<close>: the last index of \<open>c\<close>, or \<open>-1\<close>\<close>
  "rfind c [] = - 1"
| "rfind c (x # xs) =
     (let r = rfind c xs in if 0 \<le> r then r + 1 else if x = c then 0 else - 1)"

definition splitext_ext :: "string \<Rightarrow> string" where
  \<comment> \<open>\<open>os.path.splitext(p)[1]\<close> with the separator \<open>/\<close>: the extension starts at the last
      dot of the last path component, unless that component has only dots before it\<close>
  "splitext_ext p =
     (let sepIndex = rfind (CHR ''/'') p; dotIndex = rfind (CHR ''.'') p in
      if dotIndex > sepIndex
          \<and> list_ex (\<lambda>c. c \<noteq> CHR ''.'') (slice p (nat (sepIndex + 1)) (nat dotIndex))
      then drop (nat dotIndex) p else [])"

definition type_mapping :: "(string \<times> string) list" where
  "type_mapping =
     [(''.py'', ''Python''), (''.java'', ''Java''), (''.js'', ''JavaScript''),
      (''.ts'', ''TypeScript''), (''.jsx'', ''React JSX''), (''.tsx'', ''React TSX''),
      (''.cpp'', ''C++''), (''.c'', ''C''), (''.cs'', ''C#''), (''.go'', ''Go''),
      (''.rs'', ''Rust''), (''.php'', ''PHP''), (''.rb'', ''Ruby''), (''.scala'', ''Scala''),
      (''.kt'', ''Kotlin'')]"

definition detect_file_type :: "string \<Rightarrow> string" where
  \<comment> \<open>\<open>_detect_file_type\<close>\<close>
  "detect_file_type file_path =
     (case map_of type_mapping (lower (splitext_ext file_path)) of
        Some t \<Rightarrow> t
      | None \<Rightarrow> ''Unknown'')"

record complexity_analysis =
  ca_total_functions :: int
  ca_complex_functions :: "cc_result list"
  ca_average_complexity :: rat
  ca_max_complexity :: int

definition analyze_complexity :: "radon option \<Rightarrow> string \<Rightarrow> complexity_analysis" where
  \<comment> \<open>\<open>_analyze_complexity\<close>\<close>
  "analyze_complexity rd content =
     (let complexity_analysis = \<lparr>ca_total_functions = 0, ca_complex_functions = [],
                                  ca_average_complexity = 0, ca_max_complexity = 0\<rparr> in
      case rd of
        None \<Rightarrow> complexity_analysis
      | Some r \<Rightarrow>
          (case cc_visit r content of
             Inl e \<Rightarrow> complexity_analysis
           | Inr results \<Rightarrow>
               if results = [] then complexity_analysis
               else \<lparr>ca_total_functions = int (length results),
                     ca_complex_functions = filter (\<lambda>result. cc_complexity result > 10) results,
                     ca_average_complexity =
                       double (of_int (sum_list (map cc_complexity results))
                               / of_nat (length results)),
                     ca_max_complexity = py_max (map cc_complexity results)\<rparr>))"

record ai_insights =
  ai_status :: string
  ai_summary :: string
  ai_recommendations :: "string list"
  ai_code_quality :: string
  ai_classification :: "string option"
  ai_error :: "string option"

definition test_def_rx :: rx where
  \<comment> \<open>\<open>def\s+test_\<close>\<close>
  "test_def_rx = seqs [Lit ''def'', plus Space, Lit ''test_'']"

definition generate_ai_insights :: "(string \<Rightarrow> exn + string) option \<Rightarrow> string \<Rightarrow> ai_insights" where
  \<comment> \<open>\<open>_generate_ai_insights\<close>; the classifier is the optional enrichment provider\<close>
  "generate_ai_insights pipeline content =
     (let insights = \<lparr>ai_status = ''not_available'', ai_summary = [], ai_recommendations = [],
                       ai_code_quality = ''unknown'', ai_classification = None,
                       ai_error = None\<rparr> in
      case pipeline of
        None \<Rightarrow> insights
      | Some classify \<Rightarrow>
          (let analysis_text = (if length content > 1000 then take 1000 content @ ''...''
                                else content) in
           case classify analysis_text of
             Inl (Exception msg) \<Rightarrow> insights\<lparr>ai_status := ''error'', ai_error := Some msg\<rparr>
           | Inr result \<Rightarrow>
               \<lparr>ai_status = ''analyzed'',
                ai_summary = ''Code analysis completed using CodeBERT model'',
                ai_recommendations =
                  [''Consider implementing proper error handling'',
                   ''Add comprehensive documentation'',
                   ''Implement unit tests for critical functions'',
                   ''Review code for security best practices''],
                ai_code_quality =
                  (if length (split_nl content) > 500 then ''complex''
                   else if findall_count test_def_rx no_flags content > 0 then ''good''
                   else ''moderate''),
                ai_classification = Some result,
                ai_error = None\<rparr>))"

record agent =
  \<comment> \<open>the optional collaborators the agent was initialised with\<close>
  radon_provider :: "radon option"
  code_analysis_pipeline :: "(string \<Rightarrow> exn + string) option"

datatype field =
    Str string
  | NoneValue
  | Metrics code_metrics
  | Patterns "code_pattern list"
  | SecurityIssues "vulnerability list"
  | PerformanceIssues "performance_issue list"
  | Complexity complexity_analysis
  | Debt debt_indicators
  | Insights ai_insights

type_synonym report = "(string \<times> field) list"

definition bind_exn :: "exn + 'a \<Rightarrow> ('a \<Rightarrow> exn + 'b) \<Rightarrow> exn + 'b" where
  \<comment> \<open>sequencing inside a \<open>try\<close> block: the first exception ends the block\<close>
  "bind_exn m f = (case m of Inl e \<Rightarrow> Inl e | Inr x \<Rightarrow> f x)"

text \<open>
  Python does not check that the path and the content are of type \<open>str\<close>. An argument is
  modelled as a \<open>string option\<close>: \<open>Some\<close> of a \<open>str\<close>, or \<open>None\<close> for Python's \<open>None\<close>,
  which is what a caller passes when the text could not be read.
\<close>

definition path_error :: string where
  \<comment> \<open>the \<open>TypeError\<close> of \<open>os.path.splitext(None)\<close>\<close>
  "path_error = ''expected str, bytes or os.PathLike object, not NoneType''"

definition content_error :: string where
  \<comment> \<open>the \<open>AttributeError\<close> of \<open>None.split\<close>\<close>
  "content_error = [sq] @ ''NoneType'' @ [sq] @ '' object has no attribute '' @ [sq] @ ''split''
                   @ [sq]"

definition str_path :: "string option \<Rightarrow> exn + string" where
  \<comment> \<open>the path as \<open>_detect_file_type\<close> uses it: \<open>os.path.splitext\<close> raises on \<open>None\<close>\<close>
  "str_path file_path =
     (case file_path of Some p \<Rightarrow> Inr p | None \<Rightarrow> Inl (Exception path_error))"

definition str_content :: "string option \<Rightarrow> exn + string" where
  \<comment> \<open>the content as \<open>_calculate_code_metrics\<close> uses it first: \<open>content.split\<close> raises on
      \<open>None\<close>\<close>
  "str_content content =
     (case content of Some c \<Rightarrow> Inr c | None \<Rightarrow> Inl (Exception content_error))"

definition path_field :: "string option \<Rightarrow> field" where
  "path_field file_path = (case file_path of Some p \<Rightarrow> Str p | None \<Rightarrow> NoneValue)"

definition build_report ::
  "string option \<Rightarrow> string \<Rightarrow> exn + string \<Rightarrow> exn + code_metrics \<Rightarrow> exn + code_pattern list \<Rightarrow>
   exn + vulnerability list \<Rightarrow> exn + performance_issue list \<Rightarrow> exn + complexity_analysis \<Rightarrow>
   exn + debt_indicators \<Rightarrow> exn + ai_insights \<Rightarrow> exn + report" where
  \<comment> \<open>the dictionary display in the \<open>try\<close> block of \<open>analyze_code_file\<close>: its entries are
      evaluated in order, each from the outcome of one call\<close>
  "build_report file_path now ft me pa se pe co de ai =
     bind_exn ft (\<lambda>file_type.
     bind_exn me (\<lambda>metrics.
     bind_exn pa (\<lambda>patterns.
     bind_exn se (\<lambda>security_issues.
     bind_exn pe (\<lambda>performance_issues.
     bind_exn co (\<lambda>complexity.
     bind_exn de (\<lambda>technical_debt.
     bind_exn ai (\<lambda>insights.
       Inr [(''file_path'', path_field file_path),
            (''analyzed_at'', Str now),
            (''file_type'', Str file_type),
            (''metrics'', Metrics metrics),
            (''patterns'', Patterns patterns),
            (''security_issues'', SecurityIssues security_issues),
            (''performance_issues'', PerformanceIssues performance_issues),
            (''complexity_analysis'', Complexity complexity),
            (''technical_debt'', Debt technical_debt),
            (''ai_insights'', Insights insights)]))))))))"

definition guarded :: "string option \<Rightarrow> string \<Rightarrow> exn + report \<Rightarrow> report" where
  \<comment> \<open>the \<open>try\<close>/\<open>except Exception\<close> of \<open>analyze_code_file\<close>; \<open>later\<close> is the clock when the
      handler runs\<close>
  "guarded file_path later r =
     (case r of
        Inr analysis_result \<Rightarrow> analysis_result
      | Inl (Exception msg) \<Rightarrow>
          [(''error'', Str msg), (''file_path'', path_field file_path),
           (''analyzed_at'', Str later)])"

definition analyze_code_file ::
  "agent \<Rightarrow> string option \<Rightarrow> string option \<Rightarrow> string \<Rightarrow> string \<Rightarrow> report" where
  \<comment> \<open>\<open>analyze_code_file\<close>, with the two readings of the clock as arguments. The first
      call of the block needs the path to be a \<open>str\<close>, the second one the content; on a
      \<open>str\<close> the analyses themselves do not raise\<close>
  "analyze_code_file ag file_path content now later =
     guarded file_path later
       (bind_exn (str_path file_path) (\<lambda>p.
        bind_exn (str_content content) (\<lambda>c.
          build_report file_path now
            (Inr (detect_file_type p))
            (Inr (calculate_code_metrics (radon_provider ag) c))
            (Inr (detect_code_patterns c))
            (Inr (scan_security_vulnerabilities c))
            (Inr (analyze_performance_patterns c))
            (Inr (analyze_complexity (radon_provider ag) c))
            (Inr (calculate_technical_debt c))
            (Inr (generate_ai_insights (code_analysis_pipeline ag) c)))))"

definition error_keys :: "string list" where
  "error_keys = [''error'', ''file_path'', ''analyzed_at'']"

definition report_keys :: "string list" where
  "report_keys = [''file_path'', ''analyzed_at'', ''file_type'', ''metrics'', ''patterns'',
                  ''security_issues'', ''performance_issues'', ''complexity_analysis'',
                  ''technical_debt'', ''ai_insights'']"

section \<open>The analysis of a project\<close>

record file_info =
  \<comment> \<open>one entry of \<open>project_data['files']\<close>; \<open>None\<close> is a missing key\<close>
  fi_name :: "string option"
  fi_content :: "string option"

record project_data =
  files :: "file_info list option"

definition get_files :: "project_data \<Rightarrow> file_info list" where
  \<comment> \<open>\<open>project_data.get('files', [])\<close>\<close>
  "get_files project_data = (case files project_data of Some fs \<Rightarrow> fs | None \<Rightarrow> [])"

definition get_content :: "file_info \<Rightarrow> string" where
  \<comment> \<open>\<open>file_info.get('content', '')\<close>\<close>
  "get_content file_info = (case fi_content file_info of Some c \<Rightarrow> c | None \<Rightarrow> [])"

definition get_name :: "string \<Rightarrow> file_info \<Rightarrow> string" where
  \<comment> \<open>\<open>file_info.get('name', default)\<close>\<close>
  "get_name dflt file_info = (case fi_name file_info of Some n \<Rightarrow> n | None \<Rightarrow> dflt)"

definition analysed_contents :: "project_data \<Rightarrow> string list" where
  \<comment> \<open>the contents the loops with \<open>if content:\<close> look at\<close>
  "analysed_contents project_data =
     filter (\<lambda>content. content \<noteq> []) (map get_content (get_files project_data))"

subsection \<open>Overview\<close>

fun bump :: "string \<Rightarrow> (string \<times> int) list \<Rightarrow> (string \<times> int) list" where
  \<comment> \<open>\<open>d[k] = d.get(k, 0) + 1\<close> on a dictionary in insertion order\<close>
  "bump k [] = [(k, 1)]"
| "bump k ((k', n) # d) = (if k = k' then (k', n + 1) # d else (k', n) # bump k d)"

fun max_key :: "(string \<times> int) list \<Rightarrow> string \<times> int \<Rightarrow> string" where
  \<comment> \<open>\<open>max(d, key=d.get)\<close>: the first key with the largest count\<close>
  "max_key [] best = fst best"
| "max_key ((k, n) # d) best = (if n > snd best then max_key d (k, n) else max_key d best)"

definition categorize_project_size :: "int \<Rightarrow> string" where
  \<comment> \<open>\<open>_categorize_project_size\<close>\<close>
  "categorize_project_size line_total =
     (if line_total < 1000 then ''Small''
      else if line_total < 10000 then ''Medium''
      else if line_total < 100000 then ''Large''
      else ''Very Large'')"

record project_overview =
  total_files :: int
  total_lines_of_code :: int
  primary_language :: string
  language_distribution :: "(string \<times> int) list"
  project_size :: string
  file_types :: "string list"

definition analyze_project_overview :: "project_data \<Rightarrow> project_overview" where
  \<comment> \<open>\<open>_analyze_project_overview\<close>\<close>
  "analyze_project_overview project_data =
     (let fs = get_files project_data;
          language_count = fold (\<lambda>file_info. bump (detect_file_type (get_name [] file_info)))
                                fs [];
          line_total = fold (\<lambda>file_info n. n + int (length (split_nl (get_content file_info))))
                       fs 0
      in \<lparr>total_files = int (length fs),
          total_lines_of_code = line_total,
          primary_language = (case language_count of
                                [] \<Rightarrow> ''Unknown''
                              | kn # d \<Rightarrow> max_key d kn),
          language_distribution = language_count,
          project_size = categorize_project_size line_total,
          file_types = map fst language_count\<rparr>)"

subsection \<open>Architecture patterns\<close>

record architecture_pattern =
  ap_name :: string
  ap_confidence :: rat
  ap_description :: string

definition mvc_entry :: architecture_pattern where
  "mvc_entry = \<lparr>ap_name = ''Model-View-Controller (MVC)'', ap_confidence = 8 / 10,
                ap_description = ''Traditional MVC architecture pattern detected''\<rparr>"

definition microservices_entry :: architecture_pattern where
  "microservices_entry =
     \<lparr>ap_name = ''Microservices Architecture'', ap_confidence = 7 / 10,
      ap_description = ''Multiple service components suggest microservices pattern''\<rparr>"

definition repository_entry :: architecture_pattern where
  "repository_entry =
     \<lparr>ap_name = ''Repository Pattern'', ap_confidence = 9 / 10,
      ap_description = ''Data access abstraction through repository pattern''\<rparr>"

definition name_has :: "string \<Rightarrow> string \<Rightarrow> bool" where
  \<comment> \<open>\<open>word in name.lower()\<close>\<close>
  "name_has word name = contains (lower name) word"

definition detect_architecture_patterns :: "project_data \<Rightarrow> architecture_pattern list" where
  \<comment> \<open>\<open>_detect_architecture_patterns\<close>\<close>
  "detect_architecture_patterns project_data =
     (let file_names = map (get_name []) (get_files project_data) in
      (if list_ex (name_has ''controller'') file_names
          \<and> list_ex (name_has ''model'') file_names
          \<and> list_ex (name_has ''view'') file_names
       then [mvc_entry] else []) @
      (if list_ex (name_has ''service'') file_names
          \<and> length (filter (name_has ''api'') file_names) > 2
       then [microservices_entry] else []) @
      (if list_ex (name_has ''repository'') file_names
       then [repository_entry] else []))"

subsection \<open>Quality summary\<close>

record quality_totals =
  \<comment> \<open>\<open>total_metrics\<close> and \<open>file_count\<close> of \<open>_summarize_code_quality\<close>\<close>
  qt_functions :: int
  qt_classes :: int
  qt_security :: int
  qt_performance :: int
  qt_debt :: int
  qt_file_count :: int

definition add_file :: "radon option \<Rightarrow> file_info \<Rightarrow> quality_totals \<Rightarrow> quality_totals" where
  \<comment> \<open>one round of the loop of \<open>_summarize_code_quality\<close>\<close>
  "add_file rd file_info t =
     (let content = get_content file_info in
      if content \<noteq> [] then
        (let metrics = calculate_code_metrics rd content;
             security_issues = scan_security_vulnerabilities content;
             performance_issues = analyze_performance_patterns content;
             technical_debt = calculate_technical_debt content
         in \<lparr>qt_functions = qt_functions t + functions_count metrics,
             qt_classes = qt_classes t + classes_count metrics,
             qt_security = qt_security t + int (length security_issues),
             qt_performance = qt_performance t + int (length performance_issues),
             qt_debt = qt_debt t + overall_score technical_debt,
             qt_file_count = qt_file_count t + 1\<rparr>)
      else t)"

definition calculate_overall_quality_score :: "int \<Rightarrow> int \<Rightarrow> rat option \<Rightarrow> rat" where
  \<comment> \<open>\<open>_calculate_overall_quality_score\<close>, from the three entries of \<open>metrics\<close> it reads;
      a missing average counts as 0. The two other penalties are integers, \<open>0.4\<close> is the
      float nearest to \<open>4 / 10\<close>, and \<open>min(40, x)\<close> is \<open>x\<close> only if \<open>x < 40\<close>\<close>
  "calculate_overall_quality_score security_count performance_count average_debt =
     (let base_score = 100;
          security_penalty = min 30 (security_count * 5);
          performance_penalty = min 20 (performance_count * 3);
          product = double ((case average_debt of Some a \<Rightarrow> a | None \<Rightarrow> 0) * double (4 / 10));
          debt_penalty = (if product < 40 then product else 40);
          final_score = max 0 (double (of_int (base_score - security_penalty
                                              - performance_penalty) - debt_penalty))
      in py_round1 final_score)"

definition rate_quality :: "rat \<Rightarrow> string" where
  \<comment> \<open>\<open>_rate_quality\<close>\<close>
  "rate_quality score =
     (if score \<ge> 80 then ''Excellent''
      else if score \<ge> 60 then ''Good''
      else if score \<ge> 40 then ''Fair''
      else ''Poor'')"

record quality_summary =
  qs_total_functions :: int
  qs_total_classes :: int
  qs_average_complexity :: int
  security_issues_count :: int
  performance_issues_count :: int
  technical_debt_score :: int
  average_technical_debt :: "rat option"
  analyzed_files :: int
  overall_quality_score :: rat
  quality_rating :: string

definition summarize_code_quality :: "radon option \<Rightarrow> project_data \<Rightarrow> quality_summary" where
  \<comment> \<open>\<open>_summarize_code_quality\<close>\<close>
  "summarize_code_quality rd project_data =
     (let t = fold (add_file rd) (get_files project_data)
                \<lparr>qt_functions = 0, qt_classes = 0, qt_security = 0, qt_performance = 0,
                 qt_debt = 0, qt_file_count = 0\<rparr>;
          average = (if qt_file_count t > 0
                     then Some (double (of_int (qt_debt t) / of_int (qt_file_count t)))
                     else None);
          quality_score = calculate_overall_quality_score (qt_security t) (qt_performance t)
                            average
      in \<lparr>qs_total_functions = qt_functions t,
          qs_total_classes = qt_classes t,
          qs_average_complexity = 0,
          security_issues_count = qt_security t,
          performance_issues_count = qt_performance t,
          technical_debt_score = qt_debt t,
          average_technical_debt = average,
          analyzed_files = qt_file_count t,
          overall_quality_score = quality_score,
          quality_rating = rate_quality quality_score\<rparr>)"

text \<open>
  The score as the specification words it, in exact arithmetic and without the rounding,
  and the counts and the average it is computed from: they range over the files with
  non-empty content.
\<close>

definition spec_quality_score :: "int \<Rightarrow> int \<Rightarrow> rat \<Rightarrow> rat" where
  "spec_quality_score security_count performance_count average_debt =
     max 0 (100 - min 30 (of_int security_count * 5) - min 20 (of_int performance_count * 3)
                - min 40 (average_debt * (4 / 10)))"

definition security_total :: "project_data \<Rightarrow> int" where
  "security_total project_data =
     (\<Sum>c\<leftarrow>analysed_contents project_data. int (length (scan_security_vulnerabilities c)))"

definition performance_total :: "project_data \<Rightarrow> int" where
  "performance_total project_data =
     (\<Sum>c\<leftarrow>analysed_contents project_data. int (length (analyze_performance_patterns c)))"

definition average_debt_score :: "project_data \<Rightarrow> rat" where
  "average_debt_score project_data =
     (if analysed_contents project_data = [] then 0
      else of_int (\<Sum>c\<leftarrow>analysed_contents project_data.
                     overall_score (calculate_technical_debt c))
           / of_nat (length (analysed_contents project_data)))"

definition three_files :: project_data where
  \<comment> \<open>three small files; the first has one deferred-work marker\<close>
  "three_files = \<lparr>files = Some [\<lparr>fi_name = Some ''a.py'', fi_content = Some ''# TODO''\<rparr>,
                                 \<lparr>fi_name = Some ''b.py'', fi_content = Some ''x''\<rparr>,
                                 \<lparr>fi_name = Some ''c.py'', fi_content = Some ''y''\<rparr>]\<rparr>"

subsection \<open>Security and performance assessment\<close>

record file_vulnerability = vulnerability +
  \<comment> \<open>an issue after \<open>issue['file'] = ...\<close>\<close>
  vuln_file :: string

definition in_file :: "string \<Rightarrow> vulnerability \<Rightarrow> file_vulnerability" where
  "in_file f v =
     \<lparr>vuln_name = vuln_name v, vuln_severity = vuln_severity v,
      vuln_description = vuln_description v, vuln_line_number = vuln_line_number v,
      matched_code = matched_code v, vuln_file = f\<rparr>"

definition file_security_issues :: "file_info \<Rightarrow> file_vulnerability list" where
  \<comment> \<open>one round of the loop of \<open>_assess_project_security\<close>\<close>
  "file_security_issues file_info =
     (let content = get_content file_info in
      if content \<noteq> []
      then map (in_file (get_name ''unknown'' file_info)) (scan_security_vulnerabilities content)
      else [])"

definition all_security_issues :: "project_data \<Rightarrow> file_vulnerability list" where
  "all_security_issues project_data =
     concat (map file_security_issues (get_files project_data))"

definition rate_security :: "int \<Rightarrow> string" where
  \<comment> \<open>\<open>_rate_security\<close>\<close>
  "rate_security score =
     (if score \<ge> 90 then ''Excellent''
      else if score \<ge> 70 then ''Good''
      else if score \<ge> 50 then ''Fair''
      else ''Poor'')"

record security_assessment =
  total_issues :: int
  high_severity_issues :: int
  medium_severity_issues :: int
  low_severity_issues :: int
  security_score :: int
  security_rating :: string
  top_issues :: "file_vulnerability list"

definition count_severity :: "string \<Rightarrow> file_vulnerability list \<Rightarrow> int" where
  \<comment> \<open>\<open>len([issue for issue in issues if issue['severity'] == sev])\<close>\<close>
  "count_severity sev issues = int (length (filter (\<lambda>issue. vuln_severity issue = sev) issues))"

definition assess_project_security :: "project_data \<Rightarrow> security_assessment" where
  \<comment> \<open>\<open>_assess_project_security\<close>\<close>
  "assess_project_security project_data =
     (let issues = all_security_issues project_data;
          high_severity = count_severity ''HIGH'' issues;
          medium_severity = count_severity ''MEDIUM'' issues;
          low_severity = count_severity ''LOW'' issues;
          score = max 0 (100 - (high_severity * 20 + medium_severity * 10 + low_severity * 5))
      in \<lparr>total_issues = int (length issues),
          high_severity_issues = high_severity,
          medium_severity_issues = medium_severity,
          low_severity_issues = low_severity,
          security_score = score,
          security_rating = rate_security score,
          top_issues = take 5 issues\<rparr>)"

record file_performance_issue = performance_issue +
  perf_file :: string

definition perf_in_file :: "string \<Rightarrow> performance_issue \<Rightarrow> file_performance_issue" where
  "perf_in_file f v =
     \<lparr>perf_name = perf_name v, perf_severity = perf_severity v,
      perf_description = perf_description v, perf_line_number = perf_line_number v,
      perf_suggestion = perf_suggestion v, perf_file = f\<rparr>"

definition file_performance_issues :: "file_info \<Rightarrow> file_performance_issue list" where
  \<comment> \<open>one round of the loop of \<open>_analyze_project_performance\<close>\<close>
  "file_performance_issues file_info =
     (let content = get_content file_info in
      if content \<noteq> []
      then map (perf_in_file (get_name ''unknown'' file_info))
               (analyze_performance_patterns content)
      else [])"

definition all_performance_issues :: "project_data \<Rightarrow> file_performance_issue list" where
  "all_performance_issues project_data =
     concat (map file_performance_issues (get_files project_data))"

record performance_analysis =
  total_performance_issues :: int
  critical_issues :: int
  performance_score :: int
  perf_top_issues :: "file_performance_issue list"

definition analyze_project_performance :: "project_data \<Rightarrow> performance_analysis" where
  \<comment> \<open>\<open>_analyze_project_performance\<close>\<close>
  "analyze_project_performance project_data =
     (let issues = all_performance_issues project_data in
      \<lparr>total_performance_issues = int (length issues),
       critical_issues = int (length (filter (\<lambda>issue. perf_severity issue = ''HIGH'') issues)),
       performance_score = max 0 (100 - int (length issues) * 10),
       perf_top_issues = take 5 issues\<rparr>)"

subsection \<open>Recommendations\<close>

record recommendation =
  category :: string
  priority :: string
  title :: string
  description :: string

definition digit_char :: "nat \<Rightarrow> char" where
  "digit_char d = char_of (48 + d)"

function str_nat :: "nat \<Rightarrow> string" where
  \<comment> \<open>the decimal numeral of a count inside an f-string\<close>
  "str_nat n = (if n < 10 then [digit_char n] else str_nat (n div 10) @ [digit_char (n mod 10)])"
  by pat_completeness auto
termination
  by (relation "measure id") auto

declare str_nat.simps [simp del]

definition security_recommendation :: "int \<Rightarrow> recommendation" where
  "security_recommendation n =
     \<lparr>category = ''Security'', priority = ''HIGH'',
      title = ''Address High-Severity Security Issues'',
      description = ''Found '' @ str_nat (nat n)
        @ '' high-severity security issues that need immediate attention.''\<rparr>"

definition performance_recommendation :: "int \<Rightarrow> recommendation" where
  "performance_recommendation n =
     \<lparr>category = ''Performance'', priority = ''MEDIUM'',
      title = ''Optimize Performance Bottlenecks'',
      description = ''Found '' @ str_nat (nat n)
        @ '' performance issues that could impact application speed.''\<rparr>"

definition modularization_recommendation :: recommendation where
  "modularization_recommendation =
     \<lparr>category = ''Architecture'', priority = ''MEDIUM'',
      title = ''Consider Code Modularization'',
      description = ''Large codebase detected. Consider breaking down into smaller, more manageable modules.''\<rparr>"

definition testing_recommendation :: recommendation where
  "testing_recommendation =
     \<lparr>category = ''Testing'', priority = ''MEDIUM'',
      title = ''Implement Comprehensive Testing'',
      description = ''Add unit tests, integration tests, and automated testing to improve code reliability.''\<rparr>"

definition documentation_recommendation :: recommendation where
  "documentation_recommendation =
     \<lparr>category = ''Documentation'', priority = ''LOW'',
      title = ''Improve Code Documentation'',
      description = ''Add comprehensive documentation, API docs, and inline comments for better maintainability.''\<rparr>"

definition generate_project_recommendations :: "project_data \<Rightarrow> recommendation list" where
  \<comment> \<open>\<open>_generate_project_recommendations\<close>\<close>
  "generate_project_recommendations project_data =
     (let overview = analyze_project_overview project_data;
          security = assess_project_security project_data;
          performance = analyze_project_performance project_data;
          recommendations =
            (if high_severity_issues security > 0
             then [security_recommendation (high_severity_issues security)] else []) @
            (if critical_issues performance > 0
             then [performance_recommendation (critical_issues performance)] else []) @
            (if project_size overview = ''Large'' \<or> project_size overview = ''Very Large''
             then [modularization_recommendation] else []) @
            [testing_recommendation] @
            [documentation_recommendation]
      in take 10 recommendations)"

section \<open>Properties of the debt scorer\<close>

lemma findall_count_nonneg: "0 \<le> findall_count r fl s"
  by (simp add: findall_count_def)

lemma detect_code_duplication_nonneg: "0 \<le> detect_code_duplication content"
  by (simp add: detect_code_duplication_def Let_def)

lemma count_deep_nesting_nonneg: "0 \<le> count_deep_nesting content"
  by (simp add: count_deep_nesting_def)

lemma indicators_nonneg:
  "0 \<le> todo_comments (calculate_technical_debt content)"
  "0 \<le> code_duplication (calculate_technical_debt content)"
  "0 \<le> long_functions (calculate_technical_debt content)"
  "0 \<le> magic_numbers (calculate_technical_debt content)"
  "0 \<le> deep_nesting (calculate_technical_debt content)"
  by (simp_all add: calculate_technical_debt_def Let_def findall_count_nonneg
        detect_code_duplication_nonneg count_deep_nesting_nonneg)

lemma overall_score_eq:
  "overall_score (calculate_technical_debt content) =
     min 100 (todo_comments (calculate_technical_debt content) * 5
            + code_duplication (calculate_technical_debt content) * 10
            + long_functions (calculate_technical_debt content) * 8
            + magic_numbers (calculate_technical_debt content) * 2
            + deep_nesting (calculate_technical_debt content) * 15)"
  by (simp add: calculate_technical_debt_def Let_def)

lemma overall_score_bounds:
  "0 \<le> overall_score (calculate_technical_debt content)"
  "overall_score (calculate_technical_debt content) \<le> 100"
  using indicators_nonneg[of content] by (simp_all add: overall_score_eq)

lemma assessment_eq:
  "assessment (calculate_technical_debt content) =
     assess_debt_level (overall_score (calculate_technical_debt content))"
  by (simp add: calculate_technical_debt_def Let_def)

text \<open>
  C1. For every text the overall debt score is the weighted sum of the five indicator
  counts, capped at 100; it lies between 0 and 100; and the rating is fixed by the score:
  below 20 LOW, from 20 below 50 MEDIUM, from 50 below 80 HIGH, from 80 on CRITICAL. A
  score of exactly 20 is rated MEDIUM.
\<close>

theorem debt_score_weighted_sum:
  "(let d = calculate_technical_debt content; score = overall_score d in
      score = min 100 (todo_comments d * 5 + code_duplication d * 10 + long_functions d * 8
                       + magic_numbers d * 2 + deep_nesting d * 15)
      \<and> 0 \<le> score \<and> score \<le> 100
      \<and> assessment d = (if score < 20 then ''LOW''
                        else if score < 50 then ''MEDIUM''
                        else if score < 80 then ''HIGH''
                        else ''CRITICAL''))
   \<and> assess_debt_level 20 = ''MEDIUM''"
proof -
  have "assessment (calculate_technical_debt content) =
          (if overall_score (calculate_technical_debt content) < 20 then ''LOW''
           else if overall_score (calculate_technical_debt content) < 50 then ''MEDIUM''
           else if overall_score (calculate_technical_debt content) < 80 then ''HIGH''
           else ''CRITICAL'')"
    by (simp only: assessment_eq assess_debt_level_def)
  moreover have "assess_debt_level 20 = ''MEDIUM''"
    by (simp add: assess_debt_level_def)
  ultimately show ?thesis
    using overall_score_eq[of content] overall_score_bounds[of content]
    by (simp only: Let_def)
qed

lemma four_markers:
  "calculate_technical_debt
      (''# TODO'' @ [newline] @ ''# TODO'' @ [newline] @ ''# TODO'' @ [newline] @ ''# TODO'')
   = \<lparr>todo_comments = 4, code_duplication = 0, long_functions = 0, magic_numbers = 0,
      deep_nesting = 0, overall_score = 20, assessment = ''MEDIUM''\<rparr>"
  by code_simp

text \<open>
  An instance: four deferred-work markers give the score 20, which is rated MEDIUM.
\<close>

theorem debt_score_weighted_sum_witness:
  "(let d = calculate_technical_debt
      (''# TODO'' @ [newline] @ ''# TODO'' @ [newline] @ ''# TODO'' @ [newline] @ ''# TODO'') in
    todo_comments d = 4 \<and> overall_score d = min 100 (4 * 5 + 0 * 10 + 0 * 8 + 0 * 2 + 0 * 15)
    \<and> overall_score d = 20 \<and> assessment d = ''MEDIUM'')"
  using debt_score_weighted_sum
          [of "''# TODO'' @ [newline] @ ''# TODO'' @ [newline] @ ''# TODO'' @ [newline] @ ''# TODO''"]
  by (simp only: Let_def four_markers) simp

section \<open>Properties of the metrics calculator\<close>

lemma metrics_base_fields:
  "total_lines (calculate_code_metrics rd content) = total_lines (base_metrics content)"
  "code_lines (calculate_code_metrics rd content) = code_lines (base_metrics content)"
  "comment_lines (calculate_code_metrics rd content) = comment_lines (base_metrics content)"
  "blank_lines (calculate_code_metrics rd content) = blank_lines (base_metrics content)"
  "functions_count (calculate_code_metrics rd content) = functions_count (base_metrics content)"
  "classes_count (calculate_code_metrics rd content) = classes_count (base_metrics content)"
  "imports_count (calculate_code_metrics rd content) = imports_count (base_metrics content)"
  by (simp_all add: calculate_code_metrics_def add_complexity_def Let_def
        split: option.splits sum.splits)






lemma base_metrics_empty:
  "base_metrics [] = \<lparr>total_lines = 1, code_lines = 0, comment_lines = 0, blank_lines = 1,
     functions_count = 0, classes_count = 0, imports_count = 0, average_complexity = None,
     max_complexity = None, maintainability_index = None\<rparr>"
  by code_simp

lemma debt_empty:
  "calculate_technical_debt [] = \<lparr>todo_comments = 0, code_duplication = 0, long_functions = 0,
     magic_numbers = 0, deep_nesting = 0, overall_score = 0, assessment = ''LOW''\<rparr>"
  by code_simp

text \<open>
  C9, as the claim states it, fails: the empty text splits into one empty line, so the
  metrics report one line in total and one blank line, not zero.
\<close>

theorem empty_content_total_lines_counterexample:
  "total_lines (calculate_code_metrics None []) = 1
   \<and> blank_lines (calculate_code_metrics None []) = 1
   \<and> total_lines (calculate_code_metrics None []) \<noteq> 0"
  by (simp add: metrics_base_fields base_metrics_empty)

text \<open>
  C9, amended. For the empty text the metrics report one line in total and one blank
  line; the code-line, comment-line, function, class and import counts are 0; every debt
  indicator is 0, the debt score is 0 and the rating is LOW.
\<close>

theorem empty_content_counts:
  "(let m = calculate_code_metrics rd [] in
      total_lines m = 1 \<and> blank_lines m = 1 \<and> code_lines m = 0 \<and> comment_lines m = 0
      \<and> functions_count m = 0 \<and> classes_count m = 0 \<and> imports_count m = 0)
   \<and> calculate_technical_debt [] =
       \<lparr>todo_comments = 0, code_duplication = 0, long_functions = 0, magic_numbers = 0,
        deep_nesting = 0, overall_score = 0, assessment = ''LOW''\<rparr>"
  by (simp add: Let_def metrics_base_fields base_metrics_empty debt_empty)

section \<open>Properties of the pattern scanner\<close>

lemma find_SomeD: "find P xs = Some x \<Longrightarrow> x \<in> set xs \<and> P x"
  by (induction xs) (auto split: if_splits)

lemma finditer_from_spans:
  "(a, b) \<in> set (finditer_from fl r s p must) \<Longrightarrow>
     p \<le> a \<and> a \<le> b \<and> b \<le> length s \<and> (if must then (a, b) \<noteq> (p, p) else True)"
proof (induction fl r s p must arbitrary: a b rule: finditer_from.induct)
  case (1 fl r s p must)
  show ?case
  proof (cases "length s < p")
    case True
    with "1.prems" show ?thesis by (simp add: finditer_from.simps[of fl r s p must])
  next
    case inside: False
    show ?thesis
    proof (cases "find (\<lambda>e. if must then e \<noteq> p else True) (rmatch fl s r p)")
      case None
      with "1.prems" inside have "(a, b) \<in> set (finditer_from fl r s (Suc p) False)"
        by (simp add: finditer_from.simps[of fl r s p must])
      from "1.IH"(1)[OF inside None this] show ?thesis by (simp split: if_splits)
    next
      case (Some e)
      from find_SomeD[OF Some] have e: "e \<in> set (rmatch fl s r p)"
        and adv: "if must then e \<noteq> p else True" by simp_all
      from rmatch_bounds[OF e] inside have pe: "p \<le> e" "e \<le> length s" by simp_all
      from "1.prems" inside Some
      consider "(a, b) = (p, e)" | "(a, b) \<in> set (finditer_from fl r s e (e = p))"
        by (auto simp: finditer_from.simps[of fl r s p must])
      then show ?thesis
      proof cases
        case 1
        with pe adv show ?thesis by (simp split: if_splits)
      next
        case 2
        from "1.IH"(2)[OF inside Some 2] pe adv show ?thesis by (auto split: if_splits)
      qed
    qed
  qed
qed

lemma finditer_from_sorted:
  "sorted_wrt (\<lambda>m m'. fst m \<le> snd m \<and> snd m \<le> fst m' \<and> m \<noteq> m') (finditer_from fl r s p must)"
proof (induction fl r s p must rule: finditer_from.induct)
  case (1 fl r s p must)
  show ?case
  proof (cases "length s < p")
    case True
    then show ?thesis by (simp add: finditer_from.simps[of fl r s p must])
  next
    case inside: False
    show ?thesis
    proof (cases "find (\<lambda>e. if must then e \<noteq> p else True) (rmatch fl s r p)")
      case None
      with "1.IH"(1)[OF inside None] inside show ?thesis
        by (simp add: finditer_from.simps[of fl r s p must])
    next
      case (Some e)
      from find_SomeD[OF Some] have e: "e \<in> set (rmatch fl s r p)" by simp
      from rmatch_bounds[OF e] inside have pe: "p \<le> e" by simp
      have "fst (p, e) \<le> snd (p, e) \<and> snd (p, e) \<le> fst m' \<and> (p, e) \<noteq> m'"
        if "m' \<in> set (finditer_from fl r s e (e = p))" for m'
      proof -
        obtain a b where m': "m' = (a, b)" by (cases m')
        from that m' have "(a, b) \<in> set (finditer_from fl r s e (e = p))" by simp
        from finditer_from_spans[OF this] pe m' show ?thesis by (auto split: if_splits)
      qed
      with "1.IH"(2)[OF inside Some] inside Some show ?thesis
        by (simp add: finditer_from.simps[of fl r s p must])
    qed
  qed
qed

lemma count_nl_take_mono: "p \<le> q \<Longrightarrow> count_nl (take p s) \<le> count_nl (take q s)"
proof -
  assume "p \<le> q"
  then have "take q s = take p s @ take (q - p) (drop p s)"
    by (metis le_add_diff_inverse take_add)
  then show ?thesis by (simp add: count_nl_def)
qed

lemma line_number_mono: "p \<le> q \<Longrightarrow> line_number s p \<le> line_number s q"
  by (simp add: line_number_def count_nl_take_mono)

lemma finditer_lines_sorted: "sorted (map (\<lambda>m. line_number s (fst m)) (finditer r fl s))"
proof -
  have "sorted_wrt (\<lambda>m m'. fst m \<le> fst m') (finditer r fl s)"
    unfolding finditer_def
    by (rule sorted_wrt_mono_rel[OF _ finditer_from_sorted]) auto
  then have "sorted_wrt (\<lambda>m m'. line_number s (fst m) \<le> line_number s (fst m')) (finditer r fl s)"
    by (rule sorted_wrt_mono_rel[rotated]) (simp add: line_number_mono)
  then show ?thesis by (simp add: sorted_wrt_map)
qed

text \<open>
  C3, as the claim states it, fails: a line with two occurrences of a rule's pattern is
  reported twice for that rule.
\<close>

theorem one_match_per_rule_and_line_counterexample:
  "scan_security_vulnerabilities ''Math.random() + Math.random()'' =
     [\<lparr>vuln_name = ''Insecure Random'', vuln_severity = ''LOW'',
       vuln_description = ''Using insecure random number generation'',
       vuln_line_number = 1, matched_code = ''Math.random()''\<rparr>,
      \<lparr>vuln_name = ''Insecure Random'', vuln_severity = ''LOW'',
       vuln_description = ''Using insecure random number generation'',
       vuln_line_number = 1, matched_code = ''Math.random()''\<rparr>]"
  by code_simp

text \<open>
  C3, amended. For every text and every rule, security or performance, the scanner
  reports one match for each occurrence of the rule's pattern that the left-to-right
  search finds: the occurrences are distinct spans of the text that do not overlap, in
  text order, so the line numbers reported for one rule never decrease. A line that
  holds several occurrences is reported once for each of them.
\<close>

theorem scanner_reports_each_occurrence:
  "scan_security_vulnerabilities content = concat (map (scan_rule content) vulnerability_patterns)
   \<and> analyze_performance_patterns content
       = concat (map (analyze_rule content) performance_patterns)
   \<and> length (scan_rule content r) = length (finditer (rule_pattern r) multiline_flags content)
   \<and> length (analyze_rule content r) = length (finditer (rule_pattern r) multiline_flags content)
   \<and> sorted_wrt (\<lambda>m m'. fst m \<le> snd m \<and> snd m \<le> fst m' \<and> m \<noteq> m')
        (finditer (rule_pattern r) multiline_flags content)
   \<and> sorted (map vuln_line_number (scan_rule content r))
   \<and> sorted (map perf_line_number (analyze_rule content r))"
proof -
  have "map vuln_line_number (scan_rule content r) =
          map (\<lambda>m. line_number content (fst m)) (finditer (rule_pattern r) multiline_flags content)"
    by (simp add: scan_rule_def vulnerability_of_def comp_def)
  then have v: "sorted (map vuln_line_number (scan_rule content r))"
    by (simp only: finditer_lines_sorted)
  have "map perf_line_number (analyze_rule content r) =
          map (\<lambda>m. line_number content (fst m)) (finditer (rule_pattern r) multiline_flags content)"
    by (simp add: analyze_rule_def performance_issue_of_def comp_def)
  then have p: "sorted (map perf_line_number (analyze_rule content r))"
    by (simp only: finditer_lines_sorted)
  have s: "sorted_wrt (\<lambda>m m'. fst m \<le> snd m \<and> snd m \<le> fst m' \<and> m \<noteq> m')
             (finditer (rule_pattern r) multiline_flags content)"
    unfolding finditer_def by (rule finditer_from_sorted)
  have l: "length (scan_rule content r) = length (finditer (rule_pattern r) multiline_flags content)"
    "length (analyze_rule content r) = length (finditer (rule_pattern r) multiline_flags content)"
    by (simp_all add: scan_rule_def analyze_rule_def)
  have d: "scan_security_vulnerabilities content
             = concat (map (scan_rule content) vulnerability_patterns)"
    "analyze_performance_patterns content = concat (map (analyze_rule content) performance_patterns)"
    by (simp_all only: scan_security_vulnerabilities_def analyze_performance_patterns_def)
  from d l s v p show ?thesis by (intro conjI)
qed

section \<open>The matched text of a report entry\<close>

lemma truncate_match_cases:
  "truncate_match g = (if length g \<le> 100 then g else take 100 g @ ''...'')"
  "length (truncate_match g) = (if length g \<le> 100 then length g else 103)"
  by (simp_all add: truncate_match_def)

lemma truncate_match_le: "length (truncate_match g) \<le> 103"
  by (simp add: truncate_match_cases(2))

lemma matched_text_of: "matched_text (code_pattern_of content d m)
    = truncate_match (slice content (fst m) (snd m))"
  by (simp add: code_pattern_of_def)

lemma long_magic_number:
  "map matched_text (detect_code_patterns (replicate 101 (CHR ''7'')))
     = [replicate 100 (CHR ''7'') @ ''...'']"
  by code_simp

lemma long_credential:
  "length (scan_security_vulnerabilities
             (''password = '' @ [dq] @ replicate 101 (CHR ''a'') @ [dq])) = 1
   \<and> length (matched_code (hd (scan_security_vulnerabilities
               (''password = '' @ [dq] @ replicate 101 (CHR ''a'') @ [dq])))) = 114"
  by code_simp

text \<open>
  C8, as the claim states it, fails: a number of 101 digits is reported by the code
  pattern detector with a matched text of 103 characters (100 digits and an ellipsis), and
  a credential of 101 characters is reported by the security scanner with the whole match
  of 114 characters.
\<close>

theorem matched_text_at_most_100_counterexample:
  "length (hd (map matched_text (detect_code_patterns (replicate 101 (CHR ''7''))))) = 103
   \<and> length (scan_security_vulnerabilities
               (''password = '' @ [dq] @ replicate 101 (CHR ''a'') @ [dq])) = 1
   \<and> length (matched_code (hd (scan_security_vulnerabilities
               (''password = '' @ [dq] @ replicate 101 (CHR ''a'') @ [dq])))) = 114"
  using long_credential by (simp add: long_magic_number)

text \<open>
  C8, amended. For every text, the matched text of a code pattern entry is the matched
  text itself when it has at most 100 characters, and otherwise its first 100 characters
  followed by an ellipsis of three characters, so it has at most 103 characters. A
  security issue carries the whole matched text, without truncation. (A performance
  issue has no matched text.)
\<close>

theorem matched_text_truncation:
  "list_all (\<lambda>m. length (matched_text m) \<le> 103) (detect_code_patterns content)
   \<and> map matched_text (detect_code_patterns content)
       = concat (map (\<lambda>d. map (\<lambda>m. truncate_match (slice content (fst m) (snd m)))
                               (finditer (def_pattern d) detect_flags content))
                     (design_patterns @ anti_patterns))
   \<and> truncate_match g = (if length g \<le> 100 then g else take 100 g @ ''...'')
   \<and> length (truncate_match g) = (if length g \<le> 100 then length g else 103)
   \<and> map matched_code (scan_security_vulnerabilities content)
       = concat (map (\<lambda>r. map (\<lambda>m. slice content (fst m) (snd m))
                               (finditer (rule_pattern r) multiline_flags content))
                     vulnerability_patterns)"
proof -
  have a: "list_all (\<lambda>m. length (matched_text m) \<le> 103) (detect_code_patterns content)"
    by (auto simp: list_all_iff detect_code_patterns_def matched_text_of truncate_match_le)
  have b: "map matched_text (detect_code_patterns content)
       = concat (map (\<lambda>d. map (\<lambda>m. truncate_match (slice content (fst m) (snd m)))
                               (finditer (def_pattern d) detect_flags content))
                     (design_patterns @ anti_patterns))"
    by (simp only: detect_code_patterns_def map_concat map_map comp_def matched_text_of)
  have c: "map matched_code (scan_security_vulnerabilities content)
       = concat (map (\<lambda>r. map (\<lambda>m. slice content (fst m) (snd m))
                               (finditer (rule_pattern r) multiline_flags content))
                     vulnerability_patterns)"
    by (simp add: scan_security_vulnerabilities_def scan_rule_def map_concat comp_def
          vulnerability_of_def)
  from a b c truncate_match_cases[of g] show ?thesis by (intro conjI)
qed

section \<open>Properties of the security assessment\<close>

lemma count_severity_nonneg: "0 \<le> count_severity sev issues"
  by (simp add: count_severity_def)

lemma assess_fields:
  "security_score (assess_project_security project_data)
     = max 0 (100 - (high_severity_issues (assess_project_security project_data) * 20
                   + medium_severity_issues (assess_project_security project_data) * 10
                   + low_severity_issues (assess_project_security project_data) * 5))"
  "high_severity_issues (assess_project_security project_data)
     = count_severity ''HIGH'' (all_security_issues project_data)"
  "medium_severity_issues (assess_project_security project_data)
     = count_severity ''MEDIUM'' (all_security_issues project_data)"
  "low_severity_issues (assess_project_security project_data)
     = count_severity ''LOW'' (all_security_issues project_data)"
  "security_rating (assess_project_security project_data)
     = rate_security (security_score (assess_project_security project_data))"
  "top_issues (assess_project_security project_data) = take 5 (all_security_issues project_data)"
  "total_issues (assess_project_security project_data)
     = int (length (all_security_issues project_data))"
  by (simp_all add: assess_project_security_def Let_def)

lemma security_score_bounds:
  "0 \<le> security_score (assess_project_security project_data)"
  "security_score (assess_project_security project_data) \<le> 100"
proof -
  show "0 \<le> security_score (assess_project_security project_data)"
    by (simp add: assess_fields(1))
  have "0 \<le> high_severity_issues (assess_project_security project_data)"
    "0 \<le> medium_severity_issues (assess_project_security project_data)"
    "0 \<le> low_severity_issues (assess_project_security project_data)"
    by (simp_all add: assess_fields count_severity_nonneg)
  then show "security_score (assess_project_security project_data) \<le> 100"
    by (simp add: assess_fields(1))
qed

lemma all_security_issues_eq:
  "all_security_issues project_data
       = concat (map (\<lambda>file_info.
                        if get_content file_info \<noteq> []
                        then map (in_file (get_name ''unknown'' file_info))
                                 (scan_security_vulnerabilities (get_content file_info))
                        else [])
                     (get_files project_data))"
  by (simp add: all_security_issues_def file_security_issues_def Let_def cong: map_cong)

text \<open>
  C4. For every collection of file entries the security score is 100 minus 20 for each
  HIGH, 10 for each MEDIUM and 5 for each LOW issue, and not less than 0; the rating is
  Excellent from 90, Good from 70, Fair from 50 and Poor below; and the top issues are the
  first five issues in the order of discovery: file by file, skipping empty contents, and
  inside a file in the order of the scanner.
\<close>

theorem security_assessment_formula:
  "(let a = assess_project_security project_data; issues = all_security_issues project_data in
      security_score a = max 0 (100 - (high_severity_issues a * 20
                                       + medium_severity_issues a * 10
                                       + low_severity_issues a * 5))
      \<and> high_severity_issues a
          = int (length (filter (\<lambda>issue. vuln_severity issue = ''HIGH'') issues))
      \<and> medium_severity_issues a
          = int (length (filter (\<lambda>issue. vuln_severity issue = ''MEDIUM'') issues))
      \<and> low_severity_issues a
          = int (length (filter (\<lambda>issue. vuln_severity issue = ''LOW'') issues))
      \<and> 0 \<le> security_score a \<and> security_score a \<le> 100
      \<and> security_rating a = (if security_score a \<ge> 90 then ''Excellent''
                              else if security_score a \<ge> 70 then ''Good''
                              else if security_score a \<ge> 50 then ''Fair''
                              else ''Poor'')
      \<and> top_issues a = take 5 issues)
   \<and> all_security_issues project_data
       = concat (map (\<lambda>file_info.
                        if get_content file_info \<noteq> []
                        then map (in_file (get_name ''unknown'' file_info))
                                 (scan_security_vulnerabilities (get_content file_info))
                        else [])
                     (get_files project_data))"
proof -
  have rating: "security_rating (assess_project_security project_data)
      = (if security_score (assess_project_security project_data) \<ge> 90 then ''Excellent''
         else if security_score (assess_project_security project_data) \<ge> 70 then ''Good''
         else if security_score (assess_project_security project_data) \<ge> 50 then ''Fair''
         else ''Poor'')"
    by (simp only: assess_fields(5) rate_security_def)
  have counts:
    "high_severity_issues (assess_project_security project_data)
       = int (length (filter (\<lambda>issue. vuln_severity issue = ''HIGH'')
                             (all_security_issues project_data)))"
    "medium_severity_issues (assess_project_security project_data)
       = int (length (filter (\<lambda>issue. vuln_severity issue = ''MEDIUM'')
                             (all_security_issues project_data)))"
    "low_severity_issues (assess_project_security project_data)
       = int (length (filter (\<lambda>issue. vuln_severity issue = ''LOW'')
                             (all_security_issues project_data)))"
    by (simp_all only: assess_fields count_severity_def)
  from assess_fields(1)[of project_data] counts security_score_bounds[of project_data] rating
    assess_fields(6)[of project_data] all_security_issues_eq[of project_data]
  show ?thesis unfolding Let_def by (intro conjI)
qed

lemma one_credential:
  "all_security_issues
     \<lparr>files = Some [\<lparr>fi_name = Some ''cfg.py'',
                     fi_content = Some (''password = '' @ [dq] @ ''abc123'' @ [dq])\<rparr>]\<rparr>
   = [\<lparr>vuln_name = ''Hardcoded Credentials'', vuln_severity = ''HIGH'',
       vuln_description = ''Hardcoded credentials found'', vuln_line_number = 1,
       matched_code = ''password = '' @ [dq] @ ''abc123'' @ [dq], vuln_file = ''cfg.py''\<rparr>]"
  by code_simp

text \<open>
  An instance: one file with one hard-coded credential, an issue of severity HIGH, has
  the score 80, rated Good, and one top issue.
\<close>

theorem security_assessment_formula_witness:
  "security_score (assess_project_security
     \<lparr>files = Some [\<lparr>fi_name = Some ''cfg.py'',
                     fi_content = Some (''password = '' @ [dq] @ ''abc123'' @ [dq])\<rparr>]\<rparr>) = 80
   \<and> security_rating (assess_project_security
     \<lparr>files = Some [\<lparr>fi_name = Some ''cfg.py'',
                     fi_content = Some (''password = '' @ [dq] @ ''abc123'' @ [dq])\<rparr>]\<rparr>) = ''Good''
   \<and> length (top_issues (assess_project_security
     \<lparr>files = Some [\<lparr>fi_name = Some ''cfg.py'',
                     fi_content = Some (''password = '' @ [dq] @ ''abc123'' @ [dq])\<rparr>]\<rparr>)) = 1"
proof -
  define P where "P = \<lparr>files = Some [\<lparr>fi_name = Some ''cfg.py'',
                     fi_content = Some (''password = '' @ [dq] @ ''abc123'' @ [dq])\<rparr>]\<rparr>"
  define a where "a = assess_project_security P"
  have issues: "all_security_issues P
      = [\<lparr>vuln_name = ''Hardcoded Credentials'', vuln_severity = ''HIGH'',
          vuln_description = ''Hardcoded credentials found'', vuln_line_number = 1,
          matched_code = ''password = '' @ [dq] @ ''abc123'' @ [dq], vuln_file = ''cfg.py''\<rparr>]"
    unfolding P_def by (rule one_credential)
  note formula = security_assessment_formula[of P, unfolded Let_def, folded a_def]
  from formula have high: "high_severity_issues a = 1"
    and medium: "medium_severity_issues a = 0" and low: "low_severity_issues a = 0"
    by (simp_all add: issues)
  from formula have "security_score a = max 0 (100 - (high_severity_issues a * 20
      + medium_severity_issues a * 10 + low_severity_issues a * 5))"
    by blast
  then have score: "security_score a = 80"
    by (simp add: high medium low)
  from formula have "security_rating a = (if security_score a \<ge> 90 then ''Excellent''
                              else if security_score a \<ge> 70 then ''Good''
                              else if security_score a \<ge> 50 then ''Fair''
                              else ''Poor'')"
    by blast
  then have rating: "security_rating a = ''Good''"
    by (simp add: score)
  from formula have "top_issues a = take 5 (all_security_issues P)"
    by blast
  then have top: "length (top_issues a) = 1"
    by (simp add: issues)
  from score rating top show ?thesis
    unfolding a_def P_def by (intro conjI)
qed

section \<open>Properties of the recommendations\<close>

lemma size_large_iff:
  "(categorize_project_size n = ''Large'' \<or> categorize_project_size n = ''Very Large'')
     = (10000 \<le> n)"
  by (simp add: categorize_project_size_def)

lemma overview_size:
  "project_size (analyze_project_overview project_data)
     = categorize_project_size (total_lines_of_code (analyze_project_overview project_data))"
  by (simp add: analyze_project_overview_def Let_def)

lemma critical_issues_eq:
  "critical_issues (analyze_project_performance project_data)
     = int (length (filter (\<lambda>issue. perf_severity issue = ''HIGH'')
                           (all_performance_issues project_data)))"
  by (simp add: analyze_project_performance_def Let_def)

lemma recommendations_unfold:
  "generate_project_recommendations project_data =
     take 10
      ((if high_severity_issues (assess_project_security project_data) > 0
        then [security_recommendation (high_severity_issues (assess_project_security project_data))]
        else []) @
       (if critical_issues (analyze_project_performance project_data) > 0
        then [performance_recommendation (critical_issues (analyze_project_performance project_data))]
        else []) @
       (if project_size (analyze_project_overview project_data) = ''Large''
           \<or> project_size (analyze_project_overview project_data) = ''Very Large''
        then [modularization_recommendation] else []) @
       [testing_recommendation] @ [documentation_recommendation])"
  by (simp only: generate_project_recommendations_def Let_def)

lemma analyze_rule_severity:
  "issue \<in> set (analyze_rule content r) \<Longrightarrow> perf_severity issue = rule_severity r"
  by (auto simp: analyze_rule_def performance_issue_of_def)

lemma performance_severities:
  "issue \<in> set (analyze_performance_patterns content) \<Longrightarrow> perf_severity issue \<noteq> ''HIGH''"
  by (auto simp: analyze_performance_patterns_def performance_patterns_def
        dest!: analyze_rule_severity)

lemma no_critical_performance_issues:
  "critical_issues (analyze_project_performance project_data) = 0"
proof -
  have "perf_severity issue \<noteq> ''HIGH''" if "issue \<in> set (all_performance_issues project_data)"
    for issue
    using that
    by (auto simp: all_performance_issues_def file_performance_issues_def Let_def
          perf_in_file_def split: if_splits dest: performance_severities)
  then have "filter (\<lambda>issue. perf_severity issue = ''HIGH'') (all_performance_issues project_data)
               = []"
    by (simp add: filter_empty_conv)
  then show ?thesis by (simp add: critical_issues_eq)
qed

text \<open>
  C5, as the claim states it, fails: a file with one LOW security issue and one MEDIUM
  performance issue gets neither a security nor a performance recommendation.
\<close>

theorem recommendations_for_any_issue_counterexample:
  "length (all_security_issues
            \<lparr>files = Some [\<lparr>fi_name = Some ''a.js'',
                            fi_content = Some ''x = Math.random(); requests.get(u)''\<rparr>]\<rparr>) = 1
   \<and> length (all_performance_issues
            \<lparr>files = Some [\<lparr>fi_name = Some ''a.js'',
                            fi_content = Some ''x = Math.random(); requests.get(u)''\<rparr>]\<rparr>) = 1
   \<and> generate_project_recommendations
            \<lparr>files = Some [\<lparr>fi_name = Some ''a.js'',
                            fi_content = Some ''x = Math.random(); requests.get(u)''\<rparr>]\<rparr>
       = [testing_recommendation, documentation_recommendation]"
  by code_simp

text \<open>
  C5, amended. The recommendations are a fixed rule list in this order: a HIGH-priority
  security item if there is a security issue of severity HIGH; a MEDIUM-priority
  performance item if there is a performance issue of severity HIGH; a MEDIUM-priority
  modularization item if the project is Large or Very Large, that is, has at least 10000
  lines; then always a MEDIUM-priority testing item and a LOW-priority documentation
  item. The list has at most five entries, so cutting it to ten changes nothing.
\<close>

theorem recommendations_rule_list:
  "generate_project_recommendations project_data =
     (if 0 < high_severity_issues (assess_project_security project_data)
      then [security_recommendation (high_severity_issues (assess_project_security project_data))]
      else []) @
     (if 0 < critical_issues (analyze_project_performance project_data)
      then [performance_recommendation (critical_issues (analyze_project_performance project_data))]
      else []) @
     (if 10000 \<le> total_lines_of_code (analyze_project_overview project_data)
      then [modularization_recommendation] else []) @
     [testing_recommendation, documentation_recommendation]
   \<and> length (generate_project_recommendations project_data) \<le> 5
   \<and> high_severity_issues (assess_project_security project_data)
       = int (length (filter (\<lambda>issue. vuln_severity issue = ''HIGH'')
                             (all_security_issues project_data)))
   \<and> critical_issues (analyze_project_performance project_data)
       = int (length (filter (\<lambda>issue. perf_severity issue = ''HIGH'')
                             (all_performance_issues project_data)))
   \<and> priority (security_recommendation n) = ''HIGH''
   \<and> priority (performance_recommendation n) = ''MEDIUM''
   \<and> priority modularization_recommendation = ''MEDIUM''
   \<and> priority testing_recommendation = ''MEDIUM''
   \<and> priority documentation_recommendation = ''LOW''"
proof -
  have size: "(project_size (analyze_project_overview project_data) = ''Large''
           \<or> project_size (analyze_project_overview project_data) = ''Very Large'')
         = (10000 \<le> total_lines_of_code (analyze_project_overview project_data))"
    by (simp only: overview_size size_large_iff)
  have list: "generate_project_recommendations project_data =
     (if 0 < high_severity_issues (assess_project_security project_data)
      then [security_recommendation (high_severity_issues (assess_project_security project_data))]
      else []) @
     (if 0 < critical_issues (analyze_project_performance project_data)
      then [performance_recommendation (critical_issues (analyze_project_performance project_data))]
      else []) @
     (if 10000 \<le> total_lines_of_code (analyze_project_overview project_data)
      then [modularization_recommendation] else []) @
     [testing_recommendation, documentation_recommendation]"
    by (simp add: recommendations_unfold size)
  have len: "length (generate_project_recommendations project_data) \<le> 5"
    by (simp add: list)
  have high: "high_severity_issues (assess_project_security project_data)
       = int (length (filter (\<lambda>issue. vuln_severity issue = ''HIGH'')
                             (all_security_issues project_data)))"
    by (simp only: assess_fields(2) count_severity_def)
  have prio: "priority (security_recommendation n) = ''HIGH''"
    "priority (performance_recommendation n) = ''MEDIUM''"
    "priority modularization_recommendation = ''MEDIUM''"
    "priority testing_recommendation = ''MEDIUM''"
    "priority documentation_recommendation = ''LOW''"
    by (simp_all add: security_recommendation_def performance_recommendation_def
          modularization_recommendation_def testing_recommendation_def
          documentation_recommendation_def)
  from list len high critical_issues_eq[of project_data] prio show ?thesis by (intro conjI)
qed

section \<open>Properties of the architecture pattern inference\<close>

lemma startswith_iff: "startswith s p = (\<exists>v. s = p @ v)"
  by (induction s p rule: startswith.induct) auto

lemma contains_iff: "contains s p = (\<exists>u v. s = u @ p @ v)"
proof (induction s)
  case Nil
  then show ?case by auto
next
  case (Cons c cs)
  show ?case
  proof
    assume "contains (c # cs) p"
    then consider "startswith (c # cs) p" | "contains cs p" by auto
    then show "\<exists>u v. c # cs = u @ p @ v"
    proof cases
      case 1
      then obtain v where "c # cs = p @ v" by (auto simp: startswith_iff)
      then have "c # cs = [] @ p @ v" by simp
      then show ?thesis by blast
    next
      case 2
      with Cons obtain u v where "cs = u @ p @ v" by auto
      then have "c # cs = (c # u) @ p @ v" by simp
      then show ?thesis by blast
    qed
  next
    assume "\<exists>u v. c # cs = u @ p @ v"
    then obtain u v where uv: "c # cs = u @ p @ v" by auto
    show "contains (c # cs) p"
    proof (cases u)
      case Nil
      with uv have "startswith (c # cs) p" by (auto simp: startswith_iff)
      then show ?thesis by simp
    next
      case (Cons a u')
      with uv have "cs = u' @ p @ v" by simp
      with Cons.IH have "contains cs p" by blast
      then show ?thesis by simp
    qed
  qed
qed

lemma entries_distinct:
  "mvc_entry \<noteq> microservices_entry" "mvc_entry \<noteq> repository_entry"
  "microservices_entry \<noteq> repository_entry"
  by (simp_all add: mvc_entry_def microservices_entry_def repository_entry_def)

lemma mvc_example:
  "mvc_entry \<in> set (detect_architecture_patterns
      \<lparr>files = Some [\<lparr>fi_name = Some ''UserController.java'', fi_content = Some []\<rparr>,
                     \<lparr>fi_name = Some ''UserModel.java'', fi_content = Some []\<rparr>,
                     \<lparr>fi_name = Some ''UserView.java'', fi_content = Some []\<rparr>]\<rparr>)"
  by code_simp

text \<open>
  C6. The architecture patterns depend on the file names only, and the three checks are
  independent. The MVC entry, with confidence 0.8, is produced exactly when some name
  contains \<open>controller\<close>, some name contains \<open>model\<close> and some name contains \<open>view\<close>,
  in any letter case; the microservices entry, with confidence 0.7, exactly when some name
  contains \<open>service\<close> and more than two names contain \<open>api\<close>; the Repository entry, with
  confidence 0.9, exactly when some name contains \<open>repository\<close>. No entry is produced
  twice. The names \<open>UserController.java\<close>, \<open>UserModel.java\<close> and \<open>UserView.java\<close>
  give the MVC entry.
\<close>

theorem architecture_patterns_by_name:
  "(let file_names = map (get_name []) (get_files project_data);
        found = detect_architecture_patterns project_data in
      (mvc_entry \<in> set found)
        = ((\<exists>name\<in>set file_names. name_has ''controller'' name)
           \<and> (\<exists>name\<in>set file_names. name_has ''model'' name)
           \<and> (\<exists>name\<in>set file_names. name_has ''view'' name))
      \<and> (microservices_entry \<in> set found)
        = ((\<exists>name\<in>set file_names. name_has ''service'' name)
           \<and> 2 < length (filter (name_has ''api'') file_names))
      \<and> (repository_entry \<in> set found)
        = (\<exists>name\<in>set file_names. name_has ''repository'' name)
      \<and> distinct found)
   \<and> ap_confidence mvc_entry = 8 / 10
   \<and> ap_confidence microservices_entry = 7 / 10
   \<and> ap_confidence repository_entry = 9 / 10
   \<and> name_has word name = (\<exists>u v. lower name = u @ word @ v)
   \<and> mvc_entry \<in> set (detect_architecture_patterns
      \<lparr>files = Some [\<lparr>fi_name = Some ''UserController.java'', fi_content = Some []\<rparr>,
                     \<lparr>fi_name = Some ''UserModel.java'', fi_content = Some []\<rparr>,
                     \<lparr>fi_name = Some ''UserView.java'', fi_content = Some []\<rparr>]\<rparr>)"
proof -
  have conf: "ap_confidence mvc_entry = 8 / 10" "ap_confidence microservices_entry = 7 / 10"
    "ap_confidence repository_entry = 9 / 10"
    by (simp_all add: mvc_entry_def microservices_entry_def repository_entry_def)
  have has: "name_has word name = (\<exists>u v. lower name = u @ word @ v)"
    by (simp only: name_has_def contains_iff)
  have main: "(let file_names = map (get_name []) (get_files project_data);
        found = detect_architecture_patterns project_data in
      (mvc_entry \<in> set found)
        = ((\<exists>name\<in>set file_names. name_has ''controller'' name)
           \<and> (\<exists>name\<in>set file_names. name_has ''model'' name)
           \<and> (\<exists>name\<in>set file_names. name_has ''view'' name))
      \<and> (microservices_entry \<in> set found)
        = ((\<exists>name\<in>set file_names. name_has ''service'' name)
           \<and> 2 < length (filter (name_has ''api'') file_names))
      \<and> (repository_entry \<in> set found)
        = (\<exists>name\<in>set file_names. name_has ''repository'' name)
      \<and> distinct found)"
    using entries_distinct
    by (simp add: detect_architecture_patterns_def Let_def list_ex_iff)
  from main conf has mvc_example show ?thesis by (intro conjI)
qed

section \<open>Properties of the analysis of one file\<close>

lemma bind_exn_simps: "bind_exn (Inl e) f = Inl e" "bind_exn (Inr x) f = f x"
  by (simp_all add: bind_exn_def)

lemma guarded_error:
  "map fst (guarded file_path later (Inl e)) = error_keys"
  "map_of (guarded file_path later (Inl e)) ''file_path'' = Some (path_field file_path)"
  "map_of (guarded file_path later (Inl e)) ''analyzed_at'' = Some (Str later)"
  "\<exists>msg. map_of (guarded file_path later (Inl e)) ''error'' = Some (Str msg)"
  by (cases e; simp add: guarded_def error_keys_def)+

lemma guarded_result: "guarded file_path later (Inr r) = r"
  by (simp add: guarded_def)

lemma guarded_exception:
  "guarded file_path later (Inl (Exception msg))
     = [(''error'', Str msg), (''file_path'', path_field file_path), (''analyzed_at'', Str later)]"
  by (simp add: guarded_def)

lemma analyze_code_file_cases:
  "analyze_code_file ag None content now later
     = [(''error'', Str path_error), (''file_path'', NoneValue), (''analyzed_at'', Str later)]"
  "analyze_code_file ag (Some p) None now later
     = [(''error'', Str content_error), (''file_path'', Str p), (''analyzed_at'', Str later)]"
  "analyze_code_file ag (Some p) (Some c) now later
     = [(''file_path'', Str p),
        (''analyzed_at'', Str now),
        (''file_type'', Str (detect_file_type p)),
        (''metrics'', Metrics (calculate_code_metrics (radon_provider ag) c)),
        (''patterns'', Patterns (detect_code_patterns c)),
        (''security_issues'', SecurityIssues (scan_security_vulnerabilities c)),
        (''performance_issues'', PerformanceIssues (analyze_performance_patterns c)),
        (''complexity_analysis'', Complexity (analyze_complexity (radon_provider ag) c)),
        (''technical_debt'', Debt (calculate_technical_debt c)),
        (''ai_insights'', Insights (generate_ai_insights (code_analysis_pipeline ag) c))]"
  by (simp_all only: analyze_code_file_def str_path_def str_content_def option.case
        bind_exn_simps guarded_exception guarded_result build_report_def path_field_def)

lemma keys_differ: "report_keys \<noteq> error_keys"
  by (simp add: report_keys_def error_keys_def)

lemma try_block_outcomes:
  "(let r = guarded file_path later (build_report file_path now ft me pa se pe co de ai) in
        if isl ft \<or> isl me \<or> isl pa \<or> isl se \<or> isl pe \<or> isl co \<or> isl de \<or> isl ai
        then map fst r = error_keys
             \<and> map_of r ''file_path'' = Some (path_field file_path)
             \<and> map_of r ''analyzed_at'' = Some (Str later)
             \<and> (\<exists>msg. map_of r ''error'' = Some (Str msg))
        else map fst r = report_keys
             \<and> r = [(''file_path'', path_field file_path),
                    (''analyzed_at'', Str now),
                    (''file_type'', Str (projr ft)),
                    (''metrics'', Metrics (projr me)),
                    (''patterns'', Patterns (projr pa)),
                    (''security_issues'', SecurityIssues (projr se)),
                    (''performance_issues'', PerformanceIssues (projr pe)),
                    (''complexity_analysis'', Complexity (projr co)),
                    (''technical_debt'', Debt (projr de)),
                    (''ai_insights'', Insights (projr ai))])"
  unfolding Let_def build_report_def
  by (cases ft; simp only: bind_exn_simps guarded_error sum.disc simp_thms if_True;
      cases me; simp only: bind_exn_simps guarded_error sum.disc simp_thms if_True;
      cases pa; simp only: bind_exn_simps guarded_error sum.disc simp_thms if_True;
      cases se; simp only: bind_exn_simps guarded_error sum.disc simp_thms if_True;
      cases pe; simp only: bind_exn_simps guarded_error sum.disc simp_thms if_True;
      cases co; simp only: bind_exn_simps guarded_error sum.disc simp_thms if_True;
      cases de; simp only: bind_exn_simps guarded_error sum.disc simp_thms if_True;
      cases ai; simp add: bind_exn_simps guarded_error guarded_result report_keys_def)

text \<open>
  C7. The analysis of one file never lets an exception escape, and its result is never a
  partly filled report. For every path and content, each a \<open>str\<close> or \<open>None\<close>: if both are
  of type \<open>str\<close> the result is the full report, whose ten entries are the path, the first
  reading of the clock, the file type and the results of the seven analyses of the
  content; if the path or the content is \<open>None\<close>, the call that needs it raises, and the
  result is the error report, which holds the description of the error, the path and the
  clock at the time of the handler and nothing else. More generally, whatever the
  outcomes of the calls of the \<open>try\<close> block are, the block with its handler gives the
  error report if one of them raises and the report with all ten entries if none does.
\<close>

theorem analyze_code_file_never_raises:
  "analyze_code_file ag file_path content now later =
     (case file_path of
        None \<Rightarrow> [(''error'', Str path_error), (''file_path'', NoneValue),
                 (''analyzed_at'', Str later)]
      | Some p \<Rightarrow>
          (case content of
             None \<Rightarrow> [(''error'', Str content_error), (''file_path'', Str p),
                      (''analyzed_at'', Str later)]
           | Some c \<Rightarrow>
               [(''file_path'', Str p),
                (''analyzed_at'', Str now),
                (''file_type'', Str (detect_file_type p)),
                (''metrics'', Metrics (calculate_code_metrics (radon_provider ag) c)),
                (''patterns'', Patterns (detect_code_patterns c)),
                (''security_issues'', SecurityIssues (scan_security_vulnerabilities c)),
                (''performance_issues'', PerformanceIssues (analyze_performance_patterns c)),
                (''complexity_analysis'', Complexity (analyze_complexity (radon_provider ag) c)),
                (''technical_debt'', Debt (calculate_technical_debt c)),
                (''ai_insights'',
                   Insights (generate_ai_insights (code_analysis_pipeline ag) c))]))
   \<and> map fst (analyze_code_file ag file_path content now later)
       = (if file_path = None \<or> content = None then error_keys else report_keys)
   \<and> report_keys \<noteq> error_keys
   \<and> (let r = guarded file_path later (build_report file_path now ft me pa se pe co de ai) in
        if isl ft \<or> isl me \<or> isl pa \<or> isl se \<or> isl pe \<or> isl co \<or> isl de \<or> isl ai
        then map fst r = error_keys
             \<and> map_of r ''file_path'' = Some (path_field file_path)
             \<and> map_of r ''analyzed_at'' = Some (Str later)
             \<and> (\<exists>msg. map_of r ''error'' = Some (Str msg))
        else map fst r = report_keys
             \<and> r = [(''file_path'', path_field file_path),
                    (''analyzed_at'', Str now),
                    (''file_type'', Str (projr ft)),
                    (''metrics'', Metrics (projr me)),
                    (''patterns'', Patterns (projr pa)),
                    (''security_issues'', SecurityIssues (projr se)),
                    (''performance_issues'', PerformanceIssues (projr pe)),
                    (''complexity_analysis'', Complexity (projr co)),
                    (''technical_debt'', Debt (projr de)),
                    (''ai_insights'', Insights (projr ai))])"
proof -
  have shape: "analyze_code_file ag file_path content now later =
     (case file_path of
        None \<Rightarrow> [(''error'', Str path_error), (''file_path'', NoneValue),
                 (''analyzed_at'', Str later)]
      | Some p \<Rightarrow>
          (case content of
             None \<Rightarrow> [(''error'', Str content_error), (''file_path'', Str p),
                      (''analyzed_at'', Str later)]
           | Some c \<Rightarrow>
               [(''file_path'', Str p),
                (''analyzed_at'', Str now),
                (''file_type'', Str (detect_file_type p)),
                (''metrics'', Metrics (calculate_code_metrics (radon_provider ag) c)),
                (''patterns'', Patterns (detect_code_patterns c)),
                (''security_issues'', SecurityIssues (scan_security_vulnerabilities c)),
                (''performance_issues'', PerformanceIssues (analyze_performance_patterns c)),
                (''complexity_analysis'', Complexity (analyze_complexity (radon_provider ag) c)),
                (''technical_debt'', Debt (calculate_technical_debt c)),
                (''ai_insights'',
                   Insights (generate_ai_insights (code_analysis_pipeline ag) c))]))"
    by (cases file_path; cases content) (simp_all only: analyze_code_file_cases option.case)
  have keys: "map fst (analyze_code_file ag file_path content now later)
       = (if file_path = None \<or> content = None then error_keys else report_keys)"
    by (cases file_path; cases content)
       (simp_all add: analyze_code_file_cases error_keys_def report_keys_def)
  from shape keys keys_differ
    try_block_outcomes[of file_path later now ft me pa se pe co de ai]
  show ?thesis by (intro conjI)
qed

text \<open>
  An instance: the analysis of a small file gives the full report, and the analysis of a
  content that is \<open>None\<close> gives the error report with the message of the exception.
\<close>

theorem analyze_code_file_never_raises_witness:
  "map fst (analyze_code_file \<lparr>radon_provider = None, code_analysis_pipeline = None\<rparr>
              (Some ''demo.py'') (Some ''x = 1'') ''t0'' ''t1'') = report_keys
   \<and> analyze_code_file \<lparr>radon_provider = None, code_analysis_pipeline = None\<rparr>
              (Some ''demo.py'') None ''t0'' ''t1''
       = [(''error'', Str content_error), (''file_path'', Str ''demo.py''),
          (''analyzed_at'', Str ''t1'')]"
  using analyze_code_file_never_raises
          [of "\<lparr>radon_provider = None, code_analysis_pipeline = None\<rparr>" "Some ''demo.py''"
              "Some ''x = 1''" "''t0''" "''t1''"]
        analyze_code_file_never_raises
          [of "\<lparr>radon_provider = None, code_analysis_pipeline = None\<rparr>" "Some ''demo.py''"
              None "''t0''" "''t1''"]
  by (simp add: report_keys_def)

section \<open>Properties of the quality summary\<close>

lemma round_half_even_cases:
  "round_half_even y = \<lfloor>y\<rfloor> \<or> round_half_even y = \<lfloor>y\<rfloor> + 1"
  by (simp add: round_half_even_def Let_def)

lemma round_half_even_near: "\<bar>of_int (round_half_even y) - y\<bar> \<le> 1 / 2"
proof -
  define f where "f = \<lfloor>y\<rfloor>"
  have f: "of_int f \<le> y" "y < of_int f + 1"
    by (simp_all add: f_def) linarith
  consider "y - of_int f < 1 / 2" | "1 / 2 < y - of_int f" | "y - of_int f = 1 / 2"
    by linarith
  then show ?thesis
  proof cases
    case 1
    then have "round_half_even y = f"
      by (simp add: round_half_even_def Let_def f_def)
    with 1 f show ?thesis by simp
  next
    case 2
    then have "round_half_even y = f + 1"
      by (simp add: round_half_even_def Let_def f_def)
    with 2 f show ?thesis by simp
  next
    case 3
    from round_half_even_cases[of y]
    have "round_half_even y = f \<or> round_half_even y = f + 1" by (simp add: f_def)
    with 3 f show ?thesis by auto
  qed
qed

lemma round_half_even_nonneg: "0 \<le> y \<Longrightarrow> 0 \<le> round_half_even y"
proof -
  assume "0 \<le> y"
  then have "0 \<le> \<lfloor>y\<rfloor>" by simp
  with round_half_even_cases[of y] show ?thesis by auto
qed

lemma round_half_even_le: "y \<le> of_int n \<Longrightarrow> round_half_even y \<le> n"
proof -
  assume le: "y \<le> of_int n"
  show ?thesis
  proof (cases "y = of_int n")
    case True
    then show ?thesis by (simp add: round_half_even_def Let_def)
  next
    case False
    with le have "y < of_int n" by simp
    then have "\<lfloor>y\<rfloor> < n" by (simp add: floor_less_iff)
    with round_half_even_cases[of y] show ?thesis by auto
  qed
qed

lemma pow2_pos: "0 < pow2 k"
  by (simp add: pow2_def)

lemma pow2_small: "u \<le> - 46 \<Longrightarrow> pow2 u \<le> 1 / 2 ^ 46"
proof -
  assume u: "u \<le> - 46"
  then have "46 \<le> nat (- u)" by simp
  then have "(2::rat) ^ 46 \<le> 2 ^ nat (- u)"
    by (rule power_increasing) simp
  then have "1 / (2::rat) ^ nat (- u) \<le> 1 / 2 ^ 46"
    by (simp add: frac_le)
  with u show ?thesis by (simp add: pow2_def)
qed

lemma floor_log2_le: "0 < x \<Longrightarrow> x \<le> 100 \<Longrightarrow> floor_log2 x \<le> 6"
proof -
  assume x: "0 < x" "x \<le> 100"
  show ?thesis
  proof (cases "1 \<le> x")
    case True
    from x have "\<lfloor>x\<rfloor> \<le> 100" by (simp add: floor_le_iff)
    then have "\<lfloor>x\<rfloor> < 2 ^ 7" by simp
    then have "bitlen \<lfloor>x\<rfloor> \<le> 7"
      by (simp add: bitlen_le_iff_power)
    with True show ?thesis by (simp add: floor_log2_def)
  next
    case False
    have "0 \<le> bitlen (\<lceil>1 / x\<rceil> - 1)" by (rule bitlen_nonneg)
    with False show ?thesis by (simp add: floor_log2_def)
  qed
qed

lemma double_facts:
  assumes "0 \<le> x" "x \<le> 100"
  shows "0 \<le> double x" "double x \<le> 100" "\<bar>double x - x\<bar> \<le> 1 / 2 ^ 47"
proof -
  have "0 \<le> double x \<and> double x \<le> 100 \<and> \<bar>double x - x\<bar> \<le> 1 / 2 ^ 47"
  proof (cases "x = 0")
    case True
    then show ?thesis by (simp add: double_def)
  next
    case False
    with assms have pos: "0 < x" by simp
    define u where "u = max (floor_log2 \<bar>x\<bar> - 52) (- 1074)"
    define m where "m = nat (- u)"
    define r where "r = round_half_even (x / pow2 u)"
    from floor_log2_le[OF pos assms(2)] pos have u: "u \<le> - 46"
      by (simp add: u_def)
    then have p: "pow2 u = 1 / 2 ^ m" by (simp add: pow2_def m_def)
    have d: "double x = of_int r * pow2 u"
      using False by (simp add: double_def Let_def u_def r_def)
    have scaled: "x / pow2 u = x * 2 ^ m" by (simp add: p)
    from assms(1) have "0 \<le> x * 2 ^ m" by simp
    then have r0: "0 \<le> r" unfolding r_def scaled by (rule round_half_even_nonneg)
    from assms(2) have "x * 2 ^ m \<le> 100 * 2 ^ m" by simp
    then have "x * 2 ^ m \<le> of_int (100 * 2 ^ m)" by simp
    then have r1: "r \<le> 100 * 2 ^ m" unfolding r_def scaled by (rule round_half_even_le)
    from r0 have lo: "0 \<le> double x" by (simp add: d p)
    from r1 have "(of_int r :: rat) \<le> of_int (100 * 2 ^ m)" by (simp only: of_int_le_iff)
    then have "(of_int r :: rat) \<le> 100 * 2 ^ m" by simp
    then have hi: "double x \<le> 100" by (simp add: d p field_simps)
    have "\<bar>of_int r - x / pow2 u\<bar> \<le> 1 / 2"
      unfolding r_def by (rule round_half_even_near)
    then have "\<bar>of_int r - x / pow2 u\<bar> * pow2 u \<le> 1 / 2 * pow2 u"
      using pow2_pos[of u] by (simp add: mult_right_mono)
    moreover have "\<bar>of_int r - x / pow2 u\<bar> * pow2 u = \<bar>double x - x\<bar>"
    proof -
      have "\<bar>of_int r - x / pow2 u\<bar> * pow2 u = \<bar>(of_int r - x / pow2 u) * pow2 u\<bar>"
        using pow2_pos[of u] by (simp add: abs_mult)
      also have "(of_int r - x / pow2 u) * pow2 u = double x - x"
        using pow2_pos[of u] by (simp add: d left_diff_distrib)
      finally show ?thesis .
    qed
    moreover from pow2_small[OF u] have "1 / 2 * pow2 u \<le> 1 / 2 ^ 47" by simp
    ultimately have "\<bar>double x - x\<bar> \<le> 1 / 2 ^ 47" by linarith
    with lo hi show ?thesis by simp
  qed
  then show "0 \<le> double x" "double x \<le> 100" "\<bar>double x - x\<bar> \<le> 1 / 2 ^ 47"
    by simp_all
qed

lemma py_round1_facts:
  assumes "0 \<le> x" "x \<le> 100"
  shows "0 \<le> py_round1 x" "py_round1 x \<le> 100" "\<bar>py_round1 x - x\<bar> \<le> 1 / 20 + 1 / 2 ^ 47"
    "\<exists>k. py_round1 x = double (of_int k / 10)"
proof -
  define r :: rat where "r = of_int (round_half_even (x * 10)) / 10"
  have py: "py_round1 x = double r" by (simp add: py_round1_def r_def)
  from assms(1) have "0 \<le> round_half_even (x * 10)"
    by (intro round_half_even_nonneg) simp
  then have r0: "0 \<le> r" by (simp add: r_def)
  from assms(2) have "x * 10 \<le> of_int 1000" by simp
  then have "round_half_even (x * 10) \<le> 1000" by (rule round_half_even_le)
  then have "(of_int (round_half_even (x * 10)) :: rat) \<le> 1000"
    by (simp only: of_int_le_numeral_iff)
  then have r1: "r \<le> 100" by (simp add: r_def)
  from double_facts[OF r0 r1] show "0 \<le> py_round1 x" "py_round1 x \<le> 100"
    by (simp_all add: py)
  from round_half_even_near[of "x * 10"] have "\<bar>r - x\<bar> \<le> 1 / 20"
    by (simp add: r_def abs_if field_simps split: if_splits)
  with double_facts(3)[OF r0 r1] show "\<bar>py_round1 x - x\<bar> \<le> 1 / 20 + 1 / 2 ^ 47"
    unfolding py by linarith
  show "\<exists>k. py_round1 x = double (of_int k / 10)"
    unfolding py r_def by blast
qed

lemma min_near: "\<bar>min x (c::rat) - min y c\<bar> \<le> \<bar>x - y\<bar>"
  by (simp add: min_def abs_if)

lemma product_near:
  assumes a: "0 \<le> a" "a \<le> 100" and af: "\<bar>af - a\<bar> \<le> e" and c: "0 \<le> c" "c \<le> 1"
    and c4: "\<bar>c - 4 / 10\<bar> \<le> e" and e: "0 \<le> (e::rat)"
  shows "\<bar>af * c - a * (4 / 10)\<bar> \<le> 101 * e"
proof -
  have split: "af * c - a * (4 / 10) = (af - a) * c + a * (c - 4 / 10)"
    by (simp add: algebra_simps)
  have "\<bar>(af - a) * c\<bar> = \<bar>af - a\<bar> * c" using c by (simp add: abs_mult)
  also have "\<dots> \<le> e * 1" using af c e by (intro mult_mono) simp_all
  finally have one: "\<bar>(af - a) * c\<bar> \<le> e" by simp
  have "\<bar>a * (c - 4 / 10)\<bar> = a * \<bar>c - 4 / 10\<bar>" using a by (simp add: abs_mult)
  also have "\<dots> \<le> 100 * e" using a c4 e by (intro mult_mono) simp_all
  finally have two: "\<bar>a * (c - 4 / 10)\<bar> \<le> 100 * e" .
  from one two show ?thesis unfolding split by linarith
qed

lemma quality_score_analysis:
  assumes s: "0 \<le> s" and p: "0 \<le> p" and a: "0 \<le> a" "a \<le> 100"
    and av: "(case A of Some x \<Rightarrow> x | None \<Rightarrow> 0) = double a"
  shows "0 \<le> calculate_overall_quality_score s p A"
    "calculate_overall_quality_score s p A \<le> 100"
    "\<bar>calculate_overall_quality_score s p A - spec_quality_score s p a\<bar> \<le> 1 / 20 + 1 / 2 ^ 40"
    "\<exists>k. calculate_overall_quality_score s p A = double (of_int k / 10)"
proof -
  define e :: rat where "e = 1 / 2 ^ 47"
  define c :: rat where "c = double (4 / 10)"
  define af where "af = double a"
  define x where "x = double (af * c)"
  define d where "d = (if x < 40 then x else 40)"
  define i where "i = 100 - min 30 (s * 5) - min 20 (p * 3)"
  define y where "y = of_int i - d"
  have e0: "0 \<le> e" by (simp add: e_def)
  have cf: "0 \<le> c" "c \<le> 100" "\<bar>c - 4 / 10\<bar> \<le> e"
    unfolding c_def e_def by (rule double_facts; simp)+
  from cf(3) have c1: "c \<le> 1" by (simp add: e_def abs_if split: if_splits)
  have aff: "0 \<le> af" "af \<le> 100" "\<bar>af - a\<bar> \<le> e"
    unfolding af_def e_def by (rule double_facts[OF a])+
  have prod0: "0 \<le> af * c" using aff(1) cf(1) by simp
  have "af * c \<le> 100 * 1" using aff cf(1) c1 by (intro mult_mono) simp_all
  then have prod1: "af * c \<le> 100" by simp
  have xf: "0 \<le> x" "x \<le> 100" "\<bar>x - af * c\<bar> \<le> e"
    unfolding x_def e_def by (rule double_facts[OF prod0 prod1])+
  from product_near[OF a aff(3) cf(1) c1 cf(3) e0]
  have "\<bar>af * c - a * (4 / 10)\<bar> \<le> 101 * e" .
  with xf(3) have xe: "\<bar>x - a * (4 / 10)\<bar> \<le> 102 * e" by linarith
  have dmin: "d = min x 40" by (simp add: d_def min_def)
  have d0: "0 \<le> d" "d \<le> 40" using xf(1) by (simp_all add: d_def)
  from min_near[of x 40 "a * (4 / 10)"] xe
  have de: "\<bar>d - min 40 (a * (4 / 10))\<bar> \<le> 102 * e"
    unfolding dmin by (simp add: min.commute)
  have i0: "50 \<le> i" "i \<le> 100" using s p by (simp_all add: i_def min_def)
  then have ir: "(50::rat) \<le> of_int i" "(of_int i :: rat) \<le> 100" by simp_all
  have y0: "0 \<le> y" "y \<le> 100" using ir d0 by (simp_all add: y_def)
  have yf: "0 \<le> double y" "double y \<le> 100" "\<bar>double y - y\<bar> \<le> e"
    unfolding e_def by (rule double_facts[OF y0])+
  have "calculate_overall_quality_score s p A = py_round1 (max 0 (double y))"
    by (simp only: calculate_overall_quality_score_def Let_def av y_def i_def d_def x_def
          af_def c_def)
  also have "max 0 (double y) = double y" using yf(1) by (simp add: max_def)
  finally have score: "calculate_overall_quality_score s p A = py_round1 (double y)" .
  from py_round1_facts[OF yf(1,2)]
  show "0 \<le> calculate_overall_quality_score s p A"
    "calculate_overall_quality_score s p A \<le> 100"
    "\<exists>k. calculate_overall_quality_score s p A = double (of_int k / 10)"
    by (simp_all only: score)
  have "(of_int i :: rat) = 100 - min 30 (of_int s * 5) - min 20 (of_int p * 3)"
    by (simp add: i_def min_def)
  moreover have "10 \<le> of_int i - min 40 (a * (4 / 10))" using ir by (simp add: min_def)
  ultimately have spec: "spec_quality_score s p a = of_int i - min 40 (a * (4 / 10))"
    by (simp add: spec_quality_score_def)
  from py_round1_facts(3)[OF yf(1,2)]
  have "\<bar>py_round1 (double y) - double y\<bar> \<le> 1 / 20 + e" by (simp add: e_def)
  with yf(3) de have "\<bar>py_round1 (double y) - (of_int i - min 40 (a * (4 / 10)))\<bar>
      \<le> 1 / 20 + 104 * e"
    unfolding y_def by linarith
  moreover have "104 * e \<le> 1 / 2 ^ 40" by (simp add: e_def)
  ultimately show "\<bar>calculate_overall_quality_score s p A - spec_quality_score s p a\<bar>
      \<le> 1 / 20 + 1 / 2 ^ 40"
    unfolding score spec by linarith
qed

lemma fold_add_file_security:
  "qt_security (fold (add_file rd) fs t) = qt_security t
     + (\<Sum>c\<leftarrow>filter (\<lambda>content. content \<noteq> []) (map get_content fs).
          int (length (scan_security_vulnerabilities c)))"
  by (induction fs arbitrary: t) (simp_all add: add_file_def Let_def)

lemma fold_add_file_performance:
  "qt_performance (fold (add_file rd) fs t) = qt_performance t
     + (\<Sum>c\<leftarrow>filter (\<lambda>content. content \<noteq> []) (map get_content fs).
          int (length (analyze_performance_patterns c)))"
  by (induction fs arbitrary: t) (simp_all add: add_file_def Let_def)

lemma fold_add_file_debt:
  "qt_debt (fold (add_file rd) fs t) = qt_debt t
     + (\<Sum>c\<leftarrow>filter (\<lambda>content. content \<noteq> []) (map get_content fs).
          overall_score (calculate_technical_debt c))"
  by (induction fs arbitrary: t) (simp_all add: add_file_def Let_def)

lemma fold_add_file_count:
  "qt_file_count (fold (add_file rd) fs t) = qt_file_count t
     + int (length (filter (\<lambda>content. content \<noteq> []) (map get_content fs)))"
  by (induction fs arbitrary: t) (simp_all add: add_file_def Let_def)

lemma summary_fields:
  "security_issues_count (summarize_code_quality rd project_data) = security_total project_data"
  "performance_issues_count (summarize_code_quality rd project_data)
     = performance_total project_data"
  "analyzed_files (summarize_code_quality rd project_data)
     = int (length (analysed_contents project_data))"
  "average_technical_debt (summarize_code_quality rd project_data)
     = (if analysed_contents project_data = [] then None
        else Some (double (average_debt_score project_data)))"
  by (simp_all add: summarize_code_quality_def Let_def fold_add_file_security
        fold_add_file_performance fold_add_file_debt fold_add_file_count security_total_def
        performance_total_def average_debt_score_def analysed_contents_def filter_map)

lemma summary_score:
  "overall_quality_score (summarize_code_quality rd project_data)
     = calculate_overall_quality_score (security_total project_data)
         (performance_total project_data)
         (if analysed_contents project_data = [] then None
          else Some (double (average_debt_score project_data)))"
proof -
  have "overall_quality_score (summarize_code_quality rd project_data)
      = calculate_overall_quality_score
          (security_issues_count (summarize_code_quality rd project_data))
          (performance_issues_count (summarize_code_quality rd project_data))
          (average_technical_debt (summarize_code_quality rd project_data))"
    by (simp add: summarize_code_quality_def Let_def)
  then show ?thesis by (simp only: summary_fields)
qed

lemma debt_sum_le:
  "(\<Sum>c\<leftarrow>cs. overall_score (calculate_technical_debt c)) \<le> 100 * int (length cs)"
proof (induction cs)
  case Nil
  then show ?case by simp
next
  case (Cons c cs)
  with overall_score_bounds(2)[of c] show ?case by simp
qed

lemma totals_nonneg:
  "0 \<le> security_total project_data"
  "0 \<le> performance_total project_data"
  "0 \<le> average_debt_score project_data"
  "average_debt_score project_data \<le> 100"
proof -
  show "0 \<le> security_total project_data"
    unfolding security_total_def by (rule sum_list_nonneg) auto
  show "0 \<le> performance_total project_data"
    unfolding performance_total_def by (rule sum_list_nonneg) auto
  have "0 \<le> (\<Sum>c\<leftarrow>analysed_contents project_data. overall_score (calculate_technical_debt c))"
    by (rule sum_list_nonneg) (auto simp: overall_score_bounds)
  then show "0 \<le> average_debt_score project_data"
    by (simp add: average_debt_score_def)
  from debt_sum_le[of "analysed_contents project_data"]
  have "(of_int (\<Sum>c\<leftarrow>analysed_contents project_data.
                   overall_score (calculate_technical_debt c)) :: rat)
          \<le> of_int (100 * int (length (analysed_contents project_data)))"
    by (simp only: of_int_le_iff)
  then show "average_debt_score project_data \<le> 100"
    by (simp add: average_debt_score_def divide_le_eq)
qed

lemma three_files_summary:
  "summarize_code_quality None three_files =
     \<lparr>qs_total_functions = 0, qs_total_classes = 0, qs_average_complexity = 0,
      security_issues_count = 0, performance_issues_count = 0, technical_debt_score = 5,
      average_technical_debt = Some (7505999378950827 / 4503599627370496), analyzed_files = 3,
      overall_quality_score = 6987616296842035 / 70368744177664,
      quality_rating = ''Excellent''\<rparr>"
  by code_simp

lemma three_files_floats:
  "double (993 / 10) = 6987616296842035 / 70368744177664"
  "double (5 / 3) = 7505999378950827 / 4503599627370496"
  "max 0 (double (100 - double (double (5 / 3) * double (4 / 10))))
     = 6989961921647957 / 70368744177664"
  by code_simp+

lemma float_score_examples:
  "calculate_overall_quality_score 0 0 (Some (double (7 / 8))) = double (997 / 10)"
  "calculate_overall_quality_score 1 0 (Some (double (701 / 8))) = double (599 / 10)"
  "rate_quality (calculate_overall_quality_score 1 0 (Some (double (701 / 8)))) = ''Fair''"
  by code_simp+

text \<open>
  C2, as the claim states it, fails: the code rounds the score to one decimal place.
  Three files with debt scores 5, 0 and 0 and no issues have the average debt 5/3. The
  formula gives 298/3 = 99.33... in exact arithmetic and the float 99.33333333333333 in
  binary floating point; the code returns the float 99.3.
\<close>

theorem quality_score_formula_counterexample:
  "overall_quality_score (summarize_code_quality None three_files) = double (993 / 10)
   \<and> double (993 / 10) = 6987616296842035 / 70368744177664
   \<and> security_issues_count (summarize_code_quality None three_files) = 0
   \<and> performance_issues_count (summarize_code_quality None three_files) = 0
   \<and> average_technical_debt (summarize_code_quality None three_files) = Some (double (5 / 3))
   \<and> spec_quality_score 0 0 (5 / 3) = 298 / 3
   \<and> max 0 (double (100 - double (double (5 / 3) * double (4 / 10))))
       = 6989961921647957 / 70368744177664
   \<and> overall_quality_score (summarize_code_quality None three_files)
       \<noteq> spec_quality_score 0 0 (5 / 3)"
proof -
  have score: "overall_quality_score (summarize_code_quality None three_files)
      = double (993 / 10)"
    by (simp add: three_files_summary three_files_floats(1))
  have counts: "security_issues_count (summarize_code_quality None three_files) = 0"
    "performance_issues_count (summarize_code_quality None three_files) = 0"
    by (simp_all add: three_files_summary)
  have average: "average_technical_debt (summarize_code_quality None three_files)
      = Some (double (5 / 3))"
    by (simp add: three_files_summary three_files_floats(2))
  have exact: "spec_quality_score 0 0 (5 / 3) = 298 / 3"
    by (simp add: spec_quality_score_def)
  have differ: "overall_quality_score (summarize_code_quality None three_files)
      \<noteq> spec_quality_score 0 0 (5 / 3)"
    by (simp add: three_files_summary exact)
  from score three_files_floats(1) counts average exact three_files_floats(3) differ
  show ?thesis by (intro conjI)
qed

text \<open>
  C2, amended. For every collection of file entries the overall quality score is the
  value of \<open>max(0, 100 - min(30, securityIssueCount*5) - min(20, performanceIssueCount*3)
  - min(40, averageDebtScore*0.4))\<close>, computed in binary floating point, rounded to one
  decimal place by \<open>round(x, 1)\<close>. The counts and the average range over the files with
  non-empty content, and the average is 0 when there is none. So the score is the float
  of a decimal with one digit after the point, it differs from the exact value of the
  formula by at most 0.05 + 2^-40, and it lies between 0 and 100.
\<close>

theorem quality_score_rounded:
  "(let q = summarize_code_quality rd project_data;
        exact = spec_quality_score (security_total project_data)
                  (performance_total project_data) (average_debt_score project_data) in
      overall_quality_score q
        = calculate_overall_quality_score (security_total project_data)
            (performance_total project_data)
            (if analysed_contents project_data = [] then None
             else Some (double (average_debt_score project_data)))
      \<and> (\<exists>k. overall_quality_score q = double (of_int k / 10))
      \<and> \<bar>overall_quality_score q - exact\<bar> \<le> 1 / 20 + 1 / 2 ^ 40
      \<and> 0 \<le> overall_quality_score q \<and> overall_quality_score q \<le> 100
      \<and> security_issues_count q = security_total project_data
      \<and> performance_issues_count q = performance_total project_data
      \<and> analyzed_files q = int (length (analysed_contents project_data)))"
proof -
  define A where "A = (if analysed_contents project_data = [] then None
                       else Some (double (average_debt_score project_data)))"
  have av: "(case A of Some x \<Rightarrow> x | None \<Rightarrow> 0) = double (average_debt_score project_data)"
    by (simp add: A_def average_debt_score_def double_def)
  note analysis = quality_score_analysis[OF totals_nonneg(1,2,3,4) av, of project_data]
  have score: "overall_quality_score (summarize_code_quality rd project_data)
      = calculate_overall_quality_score (security_total project_data)
          (performance_total project_data) A"
    unfolding A_def by (rule summary_score)
  from analysis summary_fields(1,2,3)[of rd project_data] score[unfolded A_def]
  show ?thesis unfolding Let_def score by (intro conjI)
qed

end
